theory Spec2Isabelle
  imports Main
begin

section \<open>The history tree of the SQL history store\<close>

text \<open>
  A shallow embedding of \<^verbatim>\<open>sqlHistoryV2Manager\<close> (package \<^verbatim>\<open>sql\<close>): the operations
  \<^verbatim>\<open>AppendHistoryNodes\<close>, \<^verbatim>\<open>ReadHistoryBranch\<close>, \<^verbatim>\<open>ForkHistoryBranch\<close>,
  \<^verbatim>\<open>DeleteHistoryBranch\<close>, \<^verbatim>\<open>CompleteForkBranch\<close> and \<^verbatim>\<open>GetHistoryTree\<close>.

  Conventions of the embedding.
  \<^item> \<^verbatim>\<open>int64\<close> identifiers (node ids, transaction ids) are \<open>int\<close>; the one place where
    the code computes with them, \<^verbatim>\<open>lastNodeID + 1\<close>, has the wrap-around of \<^verbatim>\<open>int64\<close>
    written out (\<open>wrap64\<close>). All other uses are comparisons and copies.
  \<^item> UUIDs, byte slices and strings are \<open>string\<close>; \<^verbatim>\<open>MustParseUUID\<close> and \<^verbatim>\<open>String()\<close>
    are the identity on them. The optional (pointer) fields of the Thrift structs are
    taken as set, as every chain entry written by this code has them.
  \<^item> Errors are values of the datatype \<open>error\<close>; messages are dropped. A run-time
    panic is the value \<open>RuntimePanic\<close>.
  \<^item> The two tables are lists of rows in a record \<open>DB\<close>; every operation that
    touches them takes the database and returns it.
\<close>

subsection \<open>Data model\<close>

type_synonym uuid = string
type_synonym bytes = string

text \<open>\<^verbatim>\<open>shared.HistoryBranchRange\<close>: one entry of an ancestor chain.\<close>

record HistoryBranchRange =
  hbr_BranchID :: uuid
  hbr_BeginNodeID :: int
  hbr_EndNodeID :: int

text \<open>\<^verbatim>\<open>shared.HistoryBranch\<close>: a branch descriptor.\<close>

record HistoryBranch =
  hb_TreeID :: uuid
  hb_BranchID :: uuid
  hb_Ancestors :: "HistoryBranchRange list"

text \<open>\<^verbatim>\<open>p.DataBlob\<close>.\<close>

record DataBlob =
  blob_Data :: bytes
  blob_Encoding :: string

text \<open>\<^verbatim>\<open>sqldb.HistoryNodeRow\<close>: a row of the table \<^verbatim>\<open>history_node\<close>.\<close>

record HistoryNodeRow =
  nr_TreeID :: uuid
  nr_BranchID :: uuid
  nr_NodeID :: int
  nr_TxnID :: int
  nr_Data :: bytes
  nr_DataEncoding :: string

text \<open>\<^verbatim>\<open>sqldb.HistoryNodeFilter\<close>, as \<^verbatim>\<open>ReadHistoryBranch\<close> fills it.\<close>

record HistoryNodeFilter =
  nf_TreeID :: uuid
  nf_BranchID :: uuid
  nf_MinNodeID :: int
  nf_MaxNodeID :: int
  nf_PageSize :: int

text \<open>The errors the operations return.\<close>

datatype error =
    InvalidPersistenceRequestError
  | ConditionFailedError
  | InternalServiceError
  | MySQLError nat
  | ErrNoRows
  | JSONError
  | RowsAffectedError int
  | RuntimePanic

subsection \<open>ReadHistoryBranch\<close>

record InternalReadHistoryBranchRequest =
  rq_TreeID :: uuid
  rq_BranchID :: uuid
  rq_MinNodeID :: int
  rq_MaxNodeID :: int
  rq_PageSize :: int
  rq_NextPageToken :: bytes

text \<open>The response; a \<^verbatim>\<open>nil\<close> token is \<open>None\<close>.\<close>

record InternalReadHistoryBranchResponse =
  rs_History :: "DataBlob list"
  rs_NextPageToken :: "bytes option"

definition wrap64 :: "int \<Rightarrow> int" where
  "wrap64 x = (x + 2 ^ 63) mod 2 ^ 64 - 2 ^ 63"

definition emptyBlob :: DataBlob where
  "emptyBlob = \<lparr>blob_Data = [], blob_Encoding = []\<rparr>"

definition emptyReadResponse :: InternalReadHistoryBranchResponse where
  "emptyReadResponse = \<lparr>rs_History = [], rs_NextPageToken = None\<rparr>"

text \<open>
  The loop over the rows (lines 184 to 208). Its state is \<^verbatim>\<open>history\<close>, \<^verbatim>\<open>lastNodeID\<close>,
  \<^verbatim>\<open>lastTxnID\<close> and the blob \<^verbatim>\<open>eventBlob\<close> points to. Every iteration writes the row
  into the current blob; the default case appends that blob to the history and lets
  \<^verbatim>\<open>eventBlob\<close> point to a fresh one, so a blob of the history is never written again.
  The result is the history and the final \<^verbatim>\<open>lastNodeID\<close>.
\<close>

fun readRows ::
  "HistoryNodeRow list \<Rightarrow> DataBlob list \<Rightarrow> int \<Rightarrow> int \<Rightarrow> DataBlob \<Rightarrow> error + (DataBlob list \<times> int)"
where
  "readRows [] history lastNodeID lastTxnID eventBlob = Inr (history, lastNodeID)"
| "readRows (row # rows) history lastNodeID lastTxnID eventBlob =
     (let eventBlob' = eventBlob\<lparr>blob_Data := nr_Data row, blob_Encoding := nr_DataEncoding row\<rparr>
      in if nr_NodeID row < lastNodeID then Inl InternalServiceError
         else if nr_NodeID row = lastNodeID then
           (if nr_TxnID row < lastTxnID
            then readRows rows history lastNodeID lastTxnID eventBlob'
            else Inl InternalServiceError)
         else readRows rows (history @ [eventBlob']) (nr_NodeID row) (nr_TxnID row) emptyBlob)"

text \<open>
  Lines 154 to 172: the effective \<^verbatim>\<open>minNodeID\<close> and the filter. The token codec
  (\<^verbatim>\<open>deserializePageToken\<close>, \<^verbatim>\<open>serializePageToken\<close>) is declared outside the files at
  hand and is a parameter.
\<close>

definition readFilter ::
  "(bytes \<Rightarrow> error + int) \<Rightarrow> InternalReadHistoryBranchRequest \<Rightarrow> error + HistoryNodeFilter"
where
  "readFilter deserializePageToken request =
     (case (if rq_NextPageToken request \<noteq> [] then
              (case deserializePageToken (rq_NextPageToken request) of
                 Inl err \<Rightarrow> Inl InternalServiceError
               | Inr lastNodeID \<Rightarrow> Inr (wrap64 (lastNodeID + 1)))
            else Inr (rq_MinNodeID request)) of
        Inl err \<Rightarrow> Inl err
      | Inr minNodeID \<Rightarrow>
          Inr \<lparr>nf_TreeID = rq_TreeID request, nf_BranchID = rq_BranchID request,
               nf_MinNodeID = minNodeID, nf_MaxNodeID = rq_MaxNodeID request,
               nf_PageSize = rq_PageSize request\<rparr>)"

text \<open>
  Lines 174 to 219, from the result of \<^verbatim>\<open>SelectFromHistoryNode\<close>. The select is a
  parameter: it returns an error or the rows. Only \<^verbatim>\<open>sql.ErrNoRows\<close> and an empty
  result without error return early; after any other error the code goes on with the
  rows it has, which are none. Line 179 makes the history with the capacity
  \<^verbatim>\<open>request.PageSize\<close>, which panics for a negative one.
\<close>

definition readSelected ::
  "(int \<Rightarrow> bytes) \<Rightarrow> InternalReadHistoryBranchRequest \<Rightarrow> error + HistoryNodeRow list
     \<Rightarrow> error + InternalReadHistoryBranchResponse"
where
  "readSelected serializePageToken request selected =
     (if selected = Inl ErrNoRows \<or> selected = Inr [] then Inr emptyReadResponse
      else if rq_PageSize request < 0 then Inl RuntimePanic
      else
        let rows = (case selected of Inl err \<Rightarrow> [] | Inr rs \<Rightarrow> rs)
        in case readRows rows [] (- 1) (- 1) emptyBlob of
             Inl err \<Rightarrow> Inl err
           | Inr (history, lastNodeID) \<Rightarrow>
               Inr \<lparr>rs_History = history,
                    rs_NextPageToken =
                      (if rq_PageSize request \<le> int (length rows)
                       then Some (serializePageToken lastNodeID) else None)\<rparr>)"

definition ReadHistoryBranch ::
  "(bytes \<Rightarrow> error + int) \<Rightarrow> (int \<Rightarrow> bytes) \<Rightarrow> (HistoryNodeFilter \<Rightarrow> error + HistoryNodeRow list)
     \<Rightarrow> InternalReadHistoryBranchRequest \<Rightarrow> error + InternalReadHistoryBranchResponse"
where
  "ReadHistoryBranch deserializePageToken serializePageToken SelectFromHistoryNode request =
     (case readFilter deserializePageToken request of
        Inl err \<Rightarrow> Inl err
      | Inr nodeFilter \<Rightarrow>
          readSelected serializePageToken request (SelectFromHistoryNode nodeFilter))"

subsection \<open>The relational substrate\<close>

text \<open>
  Modelled from the spec: the serialized ancestor chain (\<^verbatim>\<open>json.Marshal\<close> and
  \<^verbatim>\<open>json.Unmarshal\<close> are outside the files at hand). The column is opaque: it either
  encodes a chain, which decoding gives back, or is bytes that do not decode.
\<close>

datatype ancestorsBytes = Encoded "HistoryBranchRange list" | Malformed

text \<open>\<^verbatim>\<open>sqldb.HistoryTreeRow\<close>: a row of the table \<^verbatim>\<open>history_tree\<close>.\<close>

record HistoryTreeRow =
  tr_TreeID :: uuid
  tr_BranchID :: uuid
  tr_InProgress :: bool
  tr_CreatedTs :: int
  tr_Ancestors :: ancestorsBytes
  tr_Info :: string

text \<open>Lines 59 to 74: the two wrappers of the codec.\<close>

definition serializeAncestors :: "HistoryBranchRange list \<Rightarrow> error + ancestorsBytes" where
  "serializeAncestors ans = Inr (Encoded ans)"

fun deserializeAncestors :: "ancestorsBytes \<Rightarrow> error + HistoryBranchRange list" where
  "deserializeAncestors (Encoded ans) = Inr ans"
| "deserializeAncestors Malformed = Inl JSONError"

text \<open>The database: the two tables, rows in insertion order.\<close>

record DB =
  nodes :: "HistoryNodeRow list"
  trees :: "HistoryTreeRow list"

text \<open>
  Modelled from the spec: the number of the substrate's duplicate-primary-key signal
  (the constant \<^verbatim>\<open>ErrDupEntry\<close> is declared outside the files at hand; MySQL reports
  a duplicate entry as error 1062).
\<close>

definition ErrDupEntry :: nat where
  "ErrDupEntry = 1062"

definition sameNodeKey :: "HistoryNodeRow \<Rightarrow> HistoryNodeRow \<Rightarrow> bool" where
  "sameNodeKey a b \<longleftrightarrow>
     nr_TreeID a = nr_TreeID b \<and> nr_BranchID a = nr_BranchID b \<and>
     nr_NodeID a = nr_NodeID b \<and> nr_TxnID a = nr_TxnID b"

definition sameTreeKey :: "HistoryTreeRow \<Rightarrow> HistoryTreeRow \<Rightarrow> bool" where
  "sameTreeKey a b \<longleftrightarrow> tr_TreeID a = tr_TreeID b \<and> tr_BranchID a = tr_BranchID b"

text \<open>
  Modelled from the spec: \<^verbatim>\<open>InsertIntoHistoryNode\<close> (section 4.1, InsertNode). A row
  with the same primary key \<^verbatim>\<open>(tree_id, branch_id, node_id, txn_id)\<close> makes the insert
  fail with the duplicate-key signal; otherwise one row is affected.
\<close>

definition InsertIntoHistoryNode :: "HistoryNodeRow \<Rightarrow> DB \<Rightarrow> error + (int \<times> DB)" where
  "InsertIntoHistoryNode row db =
     (if list_ex (sameNodeKey row) (nodes db) then Inl (MySQLError ErrDupEntry)
      else Inr (1, db\<lparr>nodes := nodes db @ [row]\<rparr>))"

text \<open>
  Modelled from the spec: \<^verbatim>\<open>InsertIntoHistoryTree\<close> (section 4.2, InsertBranch), with
  the primary key \<^verbatim>\<open>(tree_id, branch_id)\<close> of section 6.
\<close>

definition InsertIntoHistoryTree :: "HistoryTreeRow \<Rightarrow> DB \<Rightarrow> error + (int \<times> DB)" where
  "InsertIntoHistoryTree row db =
     (if list_ex (sameTreeKey row) (trees db) then Inl (MySQLError ErrDupEntry)
      else Inr (1, db\<lparr>trees := trees db @ [row]\<rparr>))"

text \<open>
  Modelled from the spec: \<^verbatim>\<open>DeleteFromHistoryNode\<close> (section 4.1, DeleteNodes): deletes
  every node of \<^verbatim>\<open>(treeID, branchID)\<close> with \<^verbatim>\<open>nodeID \<ge> minNodeID\<close>, no upper bound.
\<close>

definition nodeToDelete :: "uuid \<Rightarrow> uuid \<Rightarrow> int \<Rightarrow> HistoryNodeRow \<Rightarrow> bool" where
  "nodeToDelete treeID branchID minNodeID row \<longleftrightarrow>
     nr_TreeID row = treeID \<and> nr_BranchID row = branchID \<and> minNodeID \<le> nr_NodeID row"

definition DeleteFromHistoryNode :: "uuid \<Rightarrow> uuid \<Rightarrow> int \<Rightarrow> DB \<Rightarrow> error + (int \<times> DB)" where
  "DeleteFromHistoryNode treeID branchID minNodeID db =
     Inr (int (length (filter (nodeToDelete treeID branchID minNodeID) (nodes db))),
          db\<lparr>nodes := filter (\<lambda>row. \<not> nodeToDelete treeID branchID minNodeID row) (nodes db)\<rparr>)"

text \<open>Modelled from the spec: \<^verbatim>\<open>DeleteFromHistoryTree\<close> (section 4.2, DeleteBranch).\<close>

definition treeRowOf :: "uuid \<Rightarrow> uuid \<Rightarrow> HistoryTreeRow \<Rightarrow> bool" where
  "treeRowOf treeID branchID row \<longleftrightarrow> tr_TreeID row = treeID \<and> tr_BranchID row = branchID"

definition DeleteFromHistoryTree :: "uuid \<Rightarrow> uuid \<Rightarrow> DB \<Rightarrow> error + (int \<times> DB)" where
  "DeleteFromHistoryTree treeID branchID db =
     Inr (int (length (filter (treeRowOf treeID branchID) (trees db))),
          db\<lparr>trees := filter (\<lambda>row. \<not> treeRowOf treeID branchID row) (trees db)\<rparr>)"

text \<open>
  Modelled from the spec: \<^verbatim>\<open>UpdateHistoryTree\<close> (section 4.2, UpdateBranch): sets the
  in-progress flag of the branch row; the rows matched are the rows affected.
\<close>

definition UpdateHistoryTree :: "uuid \<Rightarrow> uuid \<Rightarrow> bool \<Rightarrow> DB \<Rightarrow> error + (int \<times> DB)" where
  "UpdateHistoryTree treeID branchID inProgress db =
     Inr (int (length (filter (treeRowOf treeID branchID) (trees db))),
          db\<lparr>trees := map (\<lambda>row. if treeRowOf treeID branchID row
                                  then row\<lparr>tr_InProgress := inProgress\<rparr> else row) (trees db)\<rparr>)"

text \<open>Modelled from the spec: \<^verbatim>\<open>SelectFromHistoryTree\<close> (section 4.2, SelectBranches).\<close>

definition SelectFromHistoryTree :: "uuid \<Rightarrow> DB \<Rightarrow> error + HistoryTreeRow list" where
  "SelectFromHistoryTree treeID db = Inr (filter (\<lambda>row. tr_TreeID row = treeID) (trees db))"

text \<open>
  Modelled from the spec: \<^verbatim>\<open>SelectFromHistoryNode\<close> (section 4.1, SelectNodes): the nodes
  of \<^verbatim>\<open>(treeID, branchID)\<close> with \<^verbatim>\<open>minNodeID \<le> nodeID < maxNodeID\<close>, ordered by
  \<^verbatim>\<open>(nodeID ASC, txnID DESC)\<close>, limited to \<^verbatim>\<open>pageSize\<close> rows.
\<close>

definition nodeBefore :: "HistoryNodeRow \<Rightarrow> HistoryNodeRow \<Rightarrow> bool" where
  "nodeBefore a b \<longleftrightarrow>
     nr_NodeID a < nr_NodeID b \<or> (nr_NodeID a = nr_NodeID b \<and> nr_TxnID b \<le> nr_TxnID a)"

fun insertNode :: "HistoryNodeRow \<Rightarrow> HistoryNodeRow list \<Rightarrow> HistoryNodeRow list" where
  "insertNode a [] = [a]"
| "insertNode a (b # bs) = (if nodeBefore a b then a # b # bs else b # insertNode a bs)"

definition sortNodes :: "HistoryNodeRow list \<Rightarrow> HistoryNodeRow list" where
  "sortNodes rows = foldr insertNode rows []"

definition nodeSelected :: "HistoryNodeFilter \<Rightarrow> HistoryNodeRow \<Rightarrow> bool" where
  "nodeSelected nodeFilter row \<longleftrightarrow>
     nr_TreeID row = nf_TreeID nodeFilter \<and> nr_BranchID row = nf_BranchID nodeFilter \<and>
     nf_MinNodeID nodeFilter \<le> nr_NodeID row \<and> nr_NodeID row < nf_MaxNodeID nodeFilter"

definition SelectFromHistoryNode :: "DB \<Rightarrow> HistoryNodeFilter \<Rightarrow> error + HistoryNodeRow list" where
  "SelectFromHistoryNode db nodeFilter =
     Inr (take (nat (nf_PageSize nodeFilter))
            (sortNodes (filter (nodeSelected nodeFilter) (nodes db))))"

text \<open>
  Modelled from the spec: \<^verbatim>\<open>txExecute\<close> (section 6, RunInTransaction): commits when the
  work returns no error and rolls back otherwise; the error of the work propagates
  directly (section 7).
\<close>

definition txExecute :: "(DB \<Rightarrow> error option \<times> DB) \<Rightarrow> DB \<Rightarrow> error option \<times> DB" where
  "txExecute f db = (case f db of (None, db') \<Rightarrow> (None, db') | (Some err, db') \<Rightarrow> (Some err, db))"

text \<open>
  Modelled from the spec: \<^verbatim>\<open>p.GetBeginNodeID\<close> (section 3): the \<^verbatim>\<open>endNodeID\<close> of the
  last entry of the ancestor chain if the chain is non-empty, else 1.
\<close>

definition GetBeginNodeID :: "HistoryBranch \<Rightarrow> int" where
  "GetBeginNodeID bi =
     (if hb_Ancestors bi = [] then 1 else hbr_EndNodeID (last (hb_Ancestors bi)))"

subsection \<open>AppendHistoryNodes\<close>

record InternalAppendHistoryNodesRequest =
  ap_IsNewBranch :: bool
  ap_Info :: string
  ap_BranchInfo :: HistoryBranch
  ap_NodeID :: int
  ap_Events :: DataBlob
  ap_TransactionID :: int

text \<open>The work of the transaction of the new-branch path (lines 115 to 139).\<close>

definition appendNewBranchTx :: "HistoryNodeRow \<Rightarrow> HistoryTreeRow \<Rightarrow> DB \<Rightarrow> error option \<times> DB" where
  "appendNewBranchTx nodeRow treeRow tx =
     (case InsertIntoHistoryNode nodeRow tx of
        Inl err \<Rightarrow> (Some err, tx)
      | Inr (rowsAffected, tx1) \<Rightarrow>
          if rowsAffected \<noteq> 1 then (Some (RowsAffectedError rowsAffected), tx1)
          else
            (case InsertIntoHistoryTree treeRow tx1 of
               Inl err \<Rightarrow> (Some err, tx1)
             | Inr (rowsAffected', tx2) \<Rightarrow>
                 if rowsAffected' \<noteq> 1 then (Some (RowsAffectedError rowsAffected'), tx2)
                 else (None, tx2)))"

definition appendNodeRow :: "InternalAppendHistoryNodesRequest \<Rightarrow> HistoryNodeRow" where
  "appendNodeRow request =
     \<lparr>nr_TreeID = hb_TreeID (ap_BranchInfo request),
      nr_BranchID = hb_BranchID (ap_BranchInfo request),
      nr_NodeID = ap_NodeID request,
      nr_TxnID = ap_TransactionID request,
      nr_Data = blob_Data (ap_Events request),
      nr_DataEncoding = blob_Encoding (ap_Events request)\<rparr>"

text \<open>The first argument is the reading of the clock, \<^verbatim>\<open>time.Now()\<close>.\<close>

definition AppendHistoryNodes ::
  "int \<Rightarrow> InternalAppendHistoryNodesRequest \<Rightarrow> DB \<Rightarrow> error option \<times> DB"
where
  "AppendHistoryNodes now request db =
     (let branchInfo = ap_BranchInfo request;
          beginNodeID = GetBeginNodeID branchInfo
      in if ap_NodeID request < beginNodeID then (Some InvalidPersistenceRequestError, db)
         else
           let nodeRow = appendNodeRow request
           in if ap_IsNewBranch request then
                (case serializeAncestors (hb_Ancestors branchInfo) of
                   Inl err \<Rightarrow> (Some err, db)
                 | Inr ancestors \<Rightarrow>
                     txExecute
                       (appendNewBranchTx nodeRow
                          \<lparr>tr_TreeID = hb_TreeID branchInfo,
                           tr_BranchID = hb_BranchID branchInfo,
                           tr_InProgress = False,
                           tr_CreatedTs = now,
                           tr_Ancestors = ancestors,
                           tr_Info = ap_Info request\<rparr>) db)
              else
                (case InsertIntoHistoryNode nodeRow db of
                   Inl err \<Rightarrow>
                     (case err of
                        MySQLError number \<Rightarrow>
                          if number = ErrDupEntry then (Some ConditionFailedError, db)
                          else (Some InternalServiceError, db)
                      | _ \<Rightarrow> (Some InternalServiceError, db))
                 | Inr (rowsAffected, db') \<Rightarrow> (None, db')))"

subsection \<open>ForkHistoryBranch\<close>

record InternalForkHistoryBranchRequest =
  fk_ForkBranchInfo :: HistoryBranch
  fk_ForkNodeID :: int
  fk_NewBranchID :: uuid
  fk_Info :: string

record InternalForkHistoryBranchResponse =
  fk_NewBranchInfo :: HistoryBranch

text \<open>
  The loop of lines 274 to 285 over the ancestors still to visit, with \<^verbatim>\<open>newAncestors\<close>
  as accumulator; the \<^verbatim>\<open>break\<close> returns it.
\<close>

fun forkAncestorsLoop ::
  "int \<Rightarrow> HistoryBranchRange list \<Rightarrow> HistoryBranchRange list \<Rightarrow> HistoryBranchRange list"
where
  "forkAncestorsLoop forkNodeID [] newAncestors = newAncestors"
| "forkAncestorsLoop forkNodeID (br # brs) newAncestors =
     (if forkNodeID \<le> hbr_EndNodeID br then
        newAncestors @
          [\<lparr>hbr_BranchID = hbr_BranchID br, hbr_BeginNodeID = hbr_BeginNodeID br,
            hbr_EndNodeID = forkNodeID\<rparr>]
      else forkAncestorsLoop forkNodeID brs (newAncestors @ [br]))"

text \<open>Lines 269 to 294: the ancestor chain of the new branch.\<close>

definition forkNewAncestors :: "HistoryBranch \<Rightarrow> int \<Rightarrow> HistoryBranchRange list" where
  "forkNewAncestors forkB forkNodeID =
     (let beginNodeID = GetBeginNodeID forkB
      in if forkNodeID \<le> beginNodeID then forkAncestorsLoop forkNodeID (hb_Ancestors forkB) []
         else hb_Ancestors forkB @
                [\<lparr>hbr_BranchID = hb_BranchID forkB, hbr_BeginNodeID = beginNodeID,
                  hbr_EndNodeID = forkNodeID\<rparr>])"

definition ForkHistoryBranch ::
  "int \<Rightarrow> InternalForkHistoryBranchRequest \<Rightarrow> DB
     \<Rightarrow> (error + InternalForkHistoryBranchResponse) \<times> DB"
where
  "ForkHistoryBranch now request db =
     (let forkB = fk_ForkBranchInfo request;
          treeID = hb_TreeID forkB;
          newAncestors = forkNewAncestors forkB (fk_ForkNodeID request);
          resp = \<lparr>fk_NewBranchInfo =
                    \<lparr>hb_TreeID = treeID, hb_BranchID = fk_NewBranchID request,
                     hb_Ancestors = newAncestors\<rparr>\<rparr>
      in case serializeAncestors newAncestors of
           Inl err \<Rightarrow> (Inl err, db)
         | Inr ancestors \<Rightarrow>
             (case InsertIntoHistoryTree
                     \<lparr>tr_TreeID = treeID, tr_BranchID = fk_NewBranchID request,
                      tr_InProgress = True, tr_CreatedTs = now,
                      tr_Ancestors = ancestors, tr_Info = fk_Info request\<rparr> db of
                Inl err \<Rightarrow> (Inl err, db)
              | Inr (rowsAffected, db') \<Rightarrow>
                  if rowsAffected \<noteq> 1 then (Inl (RowsAffectedError rowsAffected), db')
                  else (Inr resp, db')))"

subsection \<open>GetHistoryTree\<close>

record ForkingInProgressBranch =
  fp_BranchID :: uuid
  fp_ForkTime :: int
  fp_Info :: string

record GetHistoryTreeResponse =
  gt_Branches :: "HistoryBranch list"
  gt_ForkingInProgressBranches :: "ForkingInProgressBranch list"

text \<open>
  The loop of lines 476 to 495 over the rows still to visit, with \<^verbatim>\<open>branches\<close> and
  \<^verbatim>\<open>forkingBranches\<close> as accumulators.
\<close>

fun getHistoryTreeLoop ::
  "uuid \<Rightarrow> HistoryTreeRow list \<Rightarrow> HistoryBranch list \<Rightarrow> ForkingInProgressBranch list
     \<Rightarrow> error + GetHistoryTreeResponse"
where
  "getHistoryTreeLoop treeID [] branches forkingBranches =
     Inr \<lparr>gt_Branches = branches, gt_ForkingInProgressBranches = forkingBranches\<rparr>"
| "getHistoryTreeLoop treeID (row # rows) branches forkingBranches =
     (let forkingBranches' =
            (if tr_InProgress row then
               forkingBranches @
                 [\<lparr>fp_BranchID = tr_BranchID row, fp_ForkTime = tr_CreatedTs row,
                   fp_Info = tr_Info row\<rparr>]
             else forkingBranches)
      in case deserializeAncestors (tr_Ancestors row) of
           Inl err \<Rightarrow> Inl err
         | Inr ancs \<Rightarrow>
             getHistoryTreeLoop treeID rows
               (branches @
                  [\<lparr>hb_TreeID = treeID, hb_BranchID = tr_BranchID row, hb_Ancestors = ancs\<rparr>])
               forkingBranches')"

text \<open>
  Lines 473 to 500, from the result of \<^verbatim>\<open>SelectFromHistoryTree\<close>; as in
  \<^verbatim>\<open>ReadHistoryBranch\<close>, an error other than \<^verbatim>\<open>sql.ErrNoRows\<close> is not returned.
\<close>

definition getHistoryTreeSelected ::
  "uuid \<Rightarrow> error + HistoryTreeRow list \<Rightarrow> error + GetHistoryTreeResponse"
where
  "getHistoryTreeSelected treeID selected =
     (if selected = Inl ErrNoRows \<or> selected = Inr [] then
        Inr \<lparr>gt_Branches = [], gt_ForkingInProgressBranches = []\<rparr>
      else getHistoryTreeLoop treeID (case selected of Inl err \<Rightarrow> [] | Inr rows \<Rightarrow> rows) [] [])"

definition GetHistoryTree :: "uuid \<Rightarrow> DB \<Rightarrow> error + GetHistoryTreeResponse" where
  "GetHistoryTree treeID db = getHistoryTreeSelected treeID (SelectFromHistoryTree treeID db)"

subsection \<open>DeleteHistoryBranch\<close>

text \<open>
  Lines 358 to 366: \<^verbatim>\<open>validBRsMaxEndNode\<close>, first the inner loop over the chain of one
  branch, then the outer loop over the branches.
\<close>

fun maxEndNodeOfAncestors ::
  "HistoryBranchRange list \<Rightarrow> (uuid \<rightharpoonup> int) \<Rightarrow> (uuid \<rightharpoonup> int)"
where
  "maxEndNodeOfAncestors [] validBRsMaxEndNode = validBRsMaxEndNode"
| "maxEndNodeOfAncestors (br # brs) validBRsMaxEndNode =
     maxEndNodeOfAncestors brs
       (case validBRsMaxEndNode (hbr_BranchID br) of
          None \<Rightarrow> validBRsMaxEndNode(hbr_BranchID br \<mapsto> hbr_EndNodeID br)
        | Some current \<Rightarrow>
            if current < hbr_EndNodeID br
            then validBRsMaxEndNode(hbr_BranchID br \<mapsto> hbr_EndNodeID br)
            else validBRsMaxEndNode)"

fun maxEndNodeOfBranches ::
  "HistoryBranch list \<Rightarrow> (uuid \<rightharpoonup> int) \<Rightarrow> (uuid \<rightharpoonup> int)"
where
  "maxEndNodeOfBranches [] validBRsMaxEndNode = validBRsMaxEndNode"
| "maxEndNodeOfBranches (b # bs) validBRsMaxEndNode =
     maxEndNodeOfBranches bs (maxEndNodeOfAncestors (hb_Ancestors b) validBRsMaxEndNode)"

text \<open>
  The loop of lines 381 to 404. It visits \<^verbatim>\<open>brsToDelete\<close> from the last entry to the
  first, so it recurses over the reversed plan. It reads only the branch id and the
  begin node id of an entry (the entry appended for the branch itself has no end node
  id), so an entry of the plan is this pair.
\<close>

fun deleteRangesLoop ::
  "uuid \<Rightarrow> (uuid \<rightharpoonup> int) \<Rightarrow> (uuid \<times> int) list \<Rightarrow> DB \<Rightarrow> error option \<times> DB"
where
  "deleteRangesLoop treeID validBRsMaxEndNode [] tx = (None, tx)"
| "deleteRangesLoop treeID validBRsMaxEndNode ((branchID, beginNodeID) # brs) tx =
     (case validBRsMaxEndNode branchID of
        Some maxReferredEndNodeID \<Rightarrow>
          (case DeleteFromHistoryNode treeID branchID maxReferredEndNodeID tx of
             Inl err \<Rightarrow> (Some err, tx)
           | Inr (rowsAffected, tx') \<Rightarrow> (None, tx'))
      | None \<Rightarrow>
          (case DeleteFromHistoryNode treeID branchID beginNodeID tx of
             Inl err \<Rightarrow> (Some err, tx)
           | Inr (rowsAffected, tx') \<Rightarrow> deleteRangesLoop treeID validBRsMaxEndNode brs tx'))"

text \<open>The work of the transaction (lines 368 to 406).\<close>

definition deleteBranchTx ::
  "uuid \<Rightarrow> uuid \<Rightarrow> (uuid \<rightharpoonup> int) \<Rightarrow> (uuid \<times> int) list \<Rightarrow> DB \<Rightarrow> error option \<times> DB"
where
  "deleteBranchTx treeID branchID validBRsMaxEndNode brsToDelete tx =
     (case DeleteFromHistoryTree treeID branchID tx of
        Inl err \<Rightarrow> (Some err, tx)
      | Inr (rowsAffected, tx') \<Rightarrow>
          deleteRangesLoop treeID validBRsMaxEndNode (rev brsToDelete) tx')"

text \<open>The argument is \<^verbatim>\<open>request.BranchInfo\<close>, the only field of the request.\<close>

definition DeleteHistoryBranch :: "HistoryBranch \<Rightarrow> DB \<Rightarrow> error option \<times> DB" where
  "DeleteHistoryBranch branch db =
     (let treeID = hb_TreeID branch;
          beginNodeID = GetBeginNodeID branch;
          brsToDelete =
            map (\<lambda>br. (hbr_BranchID br, hbr_BeginNodeID br)) (hb_Ancestors branch) @
              [(hb_BranchID branch, beginNodeID)]
      in case GetHistoryTree treeID db of
           Inl err \<Rightarrow> (Some err, db)
         | Inr rsp \<Rightarrow>
             if 0 < length (gt_ForkingInProgressBranches rsp)
             then (Some ConditionFailedError, db)
             else
               txExecute
                 (deleteBranchTx treeID (hb_BranchID branch)
                    (maxEndNodeOfBranches (gt_Branches rsp) Map.empty) brsToDelete) db)"

subsection \<open>CompleteForkBranch\<close>

definition completeForkAbortTx :: "uuid \<Rightarrow> uuid \<Rightarrow> DB \<Rightarrow> error option \<times> DB" where
  "completeForkAbortTx treeID branchID tx =
     (case DeleteFromHistoryNode treeID branchID 1 tx of
        Inl err \<Rightarrow> (Some err, tx)
      | Inr (rowsAffected, tx1) \<Rightarrow>
          (case DeleteFromHistoryTree treeID branchID tx1 of
             Inl err \<Rightarrow> (Some err, tx1)
           | Inr (rowsAffected', tx2) \<Rightarrow>
               if rowsAffected' \<noteq> 1 then (Some (RowsAffectedError rowsAffected'), tx2)
               else (None, tx2)))"

definition CompleteForkBranch :: "HistoryBranch \<Rightarrow> bool \<Rightarrow> DB \<Rightarrow> error option \<times> DB" where
  "CompleteForkBranch branch success db =
     (let treeID = hb_TreeID branch; branchID = hb_BranchID branch
      in if success then
           (case UpdateHistoryTree treeID branchID False db of
              Inl err \<Rightarrow> (Some err, db)
            | Inr (rowsAffected, db') \<Rightarrow>
                if rowsAffected \<noteq> 1 then (Some (RowsAffectedError rowsAffected), db')
                else (None, db'))
         else txExecute (completeForkAbortTx treeID branchID) db)"

section \<open>The statements of the specification\<close>

subsection \<open>Reading: order of the rows, the latest transaction, corruption\<close>

text \<open>
  The order \<^verbatim>\<open>(nodeID ASC, txnID DESC)\<close> of two rows of one branch; the primary key
  makes the transaction ids of one node id differ, so the order is strict.
\<close>

definition rowBefore :: "HistoryNodeRow \<Rightarrow> HistoryNodeRow \<Rightarrow> bool" where
  "rowBefore a b \<longleftrightarrow>
     nr_NodeID a < nr_NodeID b \<or> (nr_NodeID a = nr_NodeID b \<and> nr_TxnID b < nr_TxnID a)"

definition sortedRows :: "HistoryNodeRow list \<Rightarrow> bool" where
  "sortedRows rows \<longleftrightarrow> sorted_wrt rowBefore rows"

text \<open>A row carries the largest transaction id of its node id among the rows.\<close>

definition latestTxn :: "HistoryNodeRow list \<Rightarrow> HistoryNodeRow \<Rightarrow> bool" where
  "latestTxn rows row \<longleftrightarrow>
     list_all (\<lambda>row'. nr_NodeID row' \<noteq> nr_NodeID row \<or> nr_TxnID row' \<le> nr_TxnID row) rows"

definition blobOfRow :: "HistoryNodeRow \<Rightarrow> DataBlob" where
  "blobOfRow row = \<lparr>blob_Data = nr_Data row, blob_Encoding = nr_DataEncoding row\<rparr>"

text \<open>
  The corruption of section 4.3.5, in the words of the specification: with the node id
  and the transaction id of the row accepted last (none before the first row), some
  row has a smaller node id, or the same node id and a transaction id that is not
  smaller. A row with a larger node id is accepted; the first row is.
\<close>

fun corruptedAfter :: "(int \<times> int) option \<Rightarrow> HistoryNodeRow list \<Rightarrow> bool" where
  "corruptedAfter accepted [] = False"
| "corruptedAfter None (row # rows) =
     corruptedAfter (Some (nr_NodeID row, nr_TxnID row)) rows"
| "corruptedAfter (Some (nodeID, txnID)) (row # rows) =
     (if nr_NodeID row < nodeID then True
      else if nr_NodeID row = nodeID then
        (if nr_TxnID row < txnID then corruptedAfter (Some (nodeID, txnID)) rows else True)
      else corruptedAfter (Some (nr_NodeID row, nr_TxnID row)) rows)"

text \<open>The rows the loop of \<^verbatim>\<open>ReadHistoryBranch\<close> runs over, for a result of the select.\<close>

definition selectedRows :: "error + HistoryNodeRow list \<Rightarrow> HistoryNodeRow list" where
  "selectedRows selected = (case selected of Inl err \<Rightarrow> [] | Inr rows \<Rightarrow> rows)"

subsection \<open>Forking: the chain in the words of the specification\<close>

text \<open>
  Section 4.3.2. Case A: the entries with \<^verbatim>\<open>endNodeID < forkNodeID\<close> unchanged, then the
  first entry with \<^verbatim>\<open>endNodeID \<ge> forkNodeID\<close> with its end set to \<^verbatim>\<open>forkNodeID\<close>, and
  nothing after it. Case B: the whole chain and one entry for the source branch.
\<close>

definition forkChainSpec :: "HistoryBranch \<Rightarrow> int \<Rightarrow> HistoryBranchRange list" where
  "forkChainSpec forkB forkNodeID =
     (if forkNodeID \<le> GetBeginNodeID forkB then
        takeWhile (\<lambda>br. hbr_EndNodeID br < forkNodeID) (hb_Ancestors forkB) @
          (case dropWhile (\<lambda>br. hbr_EndNodeID br < forkNodeID) (hb_Ancestors forkB) of
             [] \<Rightarrow> []
           | br # brs \<Rightarrow> [br\<lparr>hbr_EndNodeID := forkNodeID\<rparr>])
      else hb_Ancestors forkB @
             [\<lparr>hbr_BranchID = hb_BranchID forkB, hbr_BeginNodeID = GetBeginNodeID forkB,
               hbr_EndNodeID = forkNodeID\<rparr>])"

subsection \<open>Enumerating a tree\<close>

definition treeRows :: "uuid \<Rightarrow> DB \<Rightarrow> HistoryTreeRow list" where
  "treeRows treeID db = filter (\<lambda>row. tr_TreeID row = treeID) (trees db)"

definition decodable :: "HistoryTreeRow \<Rightarrow> bool" where
  "decodable row \<longleftrightarrow> tr_Ancestors row \<noteq> Malformed"

definition chainOfRow :: "HistoryTreeRow \<Rightarrow> HistoryBranchRange list" where
  "chainOfRow row = (case tr_Ancestors row of Encoded ans \<Rightarrow> ans | Malformed \<Rightarrow> [])"

definition branchOfRow :: "uuid \<Rightarrow> HistoryTreeRow \<Rightarrow> HistoryBranch" where
  "branchOfRow treeID row =
     \<lparr>hb_TreeID = treeID, hb_BranchID = tr_BranchID row, hb_Ancestors = chainOfRow row\<rparr>"

definition forkingOfRow :: "HistoryTreeRow \<Rightarrow> ForkingInProgressBranch" where
  "forkingOfRow row =
     \<lparr>fp_BranchID = tr_BranchID row, fp_ForkTime = tr_CreatedTs row, fp_Info = tr_Info row\<rparr>"

subsection \<open>The scenarios of section 8\<close>

text \<open>
  The branches, requests and databases of the scenarios S1 to S6. The token format is
  internal to the store; the scenarios use one that writes a node id \<open>n \<ge> 0\<close> as \<open>n\<close>
  marks.
\<close>

definition marksDeserialize :: "bytes \<Rightarrow> error + int" where
  "marksDeserialize token = Inr (int (length token))"

definition marksSerialize :: "int \<Rightarrow> bytes" where
  "marksSerialize lastNodeID = replicate (nat lastNodeID) (CHR ''#'')"

text \<open>A select that returns the given rows, whatever the filter.\<close>

definition selectReturning ::
  "HistoryNodeRow list \<Rightarrow> HistoryNodeFilter \<Rightarrow> error + HistoryNodeRow list"
where
  "selectReturning rows nodeFilter = Inr rows"

definition branchB1 :: HistoryBranch where
  "branchB1 = \<lparr>hb_TreeID = ''T1'', hb_BranchID = ''B1'', hb_Ancestors = []\<rparr>"

definition branchB2 :: HistoryBranch where
  "branchB2 =
     \<lparr>hb_TreeID = ''T1'', hb_BranchID = ''B2'',
      hb_Ancestors = [\<lparr>hbr_BranchID = ''B1'', hbr_BeginNodeID = 1, hbr_EndNodeID = 2\<rparr>]\<rparr>"

definition appendRequest ::
  "bool \<Rightarrow> HistoryBranch \<Rightarrow> int \<Rightarrow> int \<Rightarrow> bytes \<Rightarrow> InternalAppendHistoryNodesRequest"
where
  "appendRequest isNewBranch branch nodeID txnID blob =
     \<lparr>ap_IsNewBranch = isNewBranch, ap_Info = [], ap_BranchInfo = branch, ap_NodeID = nodeID,
      ap_Events = \<lparr>blob_Data = blob, blob_Encoding = ''json''\<rparr>, ap_TransactionID = txnID\<rparr>"

definition forkRequest :: "HistoryBranch \<Rightarrow> int \<Rightarrow> uuid \<Rightarrow> InternalForkHistoryBranchRequest" where
  "forkRequest branch forkNodeID newBranchID =
     \<lparr>fk_ForkBranchInfo = branch, fk_ForkNodeID = forkNodeID, fk_NewBranchID = newBranchID,
      fk_Info = []\<rparr>"

definition readRequest :: "uuid \<Rightarrow> int \<Rightarrow> int \<Rightarrow> int \<Rightarrow> InternalReadHistoryBranchRequest" where
  "readRequest branchID minNodeID maxNodeID pageSize =
     \<lparr>rq_TreeID = ''T1'', rq_BranchID = branchID, rq_MinNodeID = minNodeID,
      rq_MaxNodeID = maxNodeID, rq_PageSize = pageSize, rq_NextPageToken = []\<rparr>"

definition nodeRow :: "uuid \<Rightarrow> int \<Rightarrow> int \<Rightarrow> bytes \<Rightarrow> HistoryNodeRow" where
  "nodeRow branchID nodeID txnID blob =
     \<lparr>nr_TreeID = ''T1'', nr_BranchID = branchID, nr_NodeID = nodeID, nr_TxnID = txnID,
      nr_Data = blob, nr_DataEncoding = ''json''\<rparr>"

definition treeRow :: "uuid \<Rightarrow> bool \<Rightarrow> HistoryBranchRange list \<Rightarrow> HistoryTreeRow" where
  "treeRow branchID inProgress ancestors =
     \<lparr>tr_TreeID = ''T1'', tr_BranchID = branchID, tr_InProgress = inProgress, tr_CreatedTs = 0,
      tr_Ancestors = Encoded ancestors, tr_Info = []\<rparr>"

definition emptyDB :: DB where
  "emptyDB = \<lparr>nodes = [], trees = []\<rparr>"

text \<open>The database after S1.\<close>

definition dbS1 :: DB where
  "dbS1 =
     \<lparr>nodes = [nodeRow ''B1'' 1 100 ''e1'', nodeRow ''B1'' 2 101 ''e2''],
      trees = [treeRow ''B1'' False []]\<rparr>"

text \<open>The database after S2.\<close>

definition dbS2 :: DB where
  "dbS2 =
     \<lparr>nodes = [nodeRow ''B1'' 1 100 ''e1'', nodeRow ''B1'' 2 101 ''e2'',
               nodeRow ''B1'' 2 200 ''e2b''],
      trees = [treeRow ''B1'' False []]\<rparr>"

text \<open>The database after S3: the tree S4 starts from.\<close>

definition dbS3 :: DB where
  "dbS3 =
     \<lparr>nodes = [nodeRow ''B1'' 1 100 ''e1'', nodeRow ''B1'' 2 101 ''e2'',
               nodeRow ''B1'' 2 200 ''e2b'', nodeRow ''B2'' 2 300 ''e2-alt''],
      trees = [treeRow ''B1'' False [], treeRow ''B2'' False (hb_Ancestors branchB2)]\<rparr>"

text \<open>The database after \<^verbatim>\<open>Delete(B2)\<close> of S4.\<close>

definition dbS4 :: DB where
  "dbS4 = \<lparr>nodes = [nodeRow ''B1'' 1 100 ''e1''], trees = [treeRow ''B1'' False []]\<rparr>"

text \<open>The database of S5: S2 and a fork of B1 at 2 into B3 that is not completed.\<close>

definition branchB3 :: HistoryBranch where
  "branchB3 =
     \<lparr>hb_TreeID = ''T1'', hb_BranchID = ''B3'',
      hb_Ancestors = [\<lparr>hbr_BranchID = ''B1'', hbr_BeginNodeID = 1, hbr_EndNodeID = 2\<rparr>]\<rparr>"


definition dbS5 :: DB where
  "dbS5 =
     \<lparr>nodes = [nodeRow ''B1'' 1 100 ''e1'', nodeRow ''B1'' 2 101 ''e2'',
               nodeRow ''B1'' 2 200 ''e2b''],
      trees = [treeRow ''B1'' False [],
               treeRow ''B3'' True (hb_Ancestors branchB3)]\<rparr>"

text \<open>The rows of B1 in the order of the select, and the same rows with two swapped.\<close>

definition rowsB1 :: "HistoryNodeRow list" where
  "rowsB1 = [nodeRow ''B1'' 1 100 ''e1'', nodeRow ''B1'' 2 200 ''e2b'', nodeRow ''B1'' 2 101 ''e2'']"

definition rowsB1Swapped :: "HistoryNodeRow list" where
  "rowsB1Swapped =
     [nodeRow ''B1'' 1 100 ''e1'', nodeRow ''B1'' 2 101 ''e2'', nodeRow ''B1'' 2 200 ''e2b'']"

text \<open>The request of a second page of B1: page size 1, after the token of node id 1.\<close>

definition pagedRequest :: InternalReadHistoryBranchRequest where
  "pagedRequest = (readRequest ''B1'' 1 10 1)\<lparr>rq_NextPageToken := ''#''\<rparr>"

section \<open>Properties\<close>

subsection \<open>Auxiliary facts\<close>

lemma sameTreeKey_treeRowOf: "sameTreeKey row = treeRowOf (tr_TreeID row) (tr_BranchID row)"
  by (rule ext) (auto simp: sameTreeKey_def treeRowOf_def)

lemma wrap64_in_range: "- (2 ^ 63) \<le> x \<Longrightarrow> x < 2 ^ 63 \<Longrightarrow> wrap64 x = x"
  by (simp add: wrap64_def)

text \<open>The scenario databases are the ones the operations produce from the empty one.\<close>

lemma scenario_S1_reached:
  "AppendHistoryNodes 0 (appendRequest False branchB1 2 101 ''e2'')
     (snd (AppendHistoryNodes 0 (appendRequest True branchB1 1 100 ''e1'') emptyDB)) =
   (None, dbS1)"
  by code_simp

lemma scenario_S2_reached:
  "AppendHistoryNodes 0 (appendRequest False branchB1 2 200 ''e2b'') dbS1 = (None, dbS2)"
  by code_simp

lemma scenario_S3_reached:
  "ForkHistoryBranch 0 (forkRequest branchB1 2 ''B2'') dbS2 =
     (Inr \<lparr>fk_NewBranchInfo = branchB2\<rparr>,
      snd (ForkHistoryBranch 0 (forkRequest branchB1 2 ''B2'') dbS2)) \<and>
   AppendHistoryNodes 0 (appendRequest False branchB2 2 300 ''e2-alt'')
     (snd (CompleteForkBranch branchB2 True
        (snd (ForkHistoryBranch 0 (forkRequest branchB1 2 ''B2'') dbS2)))) =
   (None, dbS3)"
  by code_simp

lemma scenario_S5_reached:
  "ForkHistoryBranch 0 (forkRequest branchB1 2 ''B3'') dbS2 =
     (Inr \<lparr>fk_NewBranchInfo = branchB3\<rparr>, dbS5)"
  by code_simp

text \<open>The loop of the fork, the enumeration of a tree and the loop of the read.\<close>

lemma forkAncestorsLoop_spec:
  "forkAncestorsLoop f brs acc =
     acc @ takeWhile (\<lambda>br. hbr_EndNodeID br < f) brs @
       (case dropWhile (\<lambda>br. hbr_EndNodeID br < f) brs of
          [] \<Rightarrow> [] | br # rest \<Rightarrow> [br\<lparr>hbr_EndNodeID := f\<rparr>])"
proof (induction brs arbitrary: acc)
  case Nil
  show ?case by simp
next
  case (Cons br brs)
  show ?case
  proof (cases "f \<le> hbr_EndNodeID br")
    case True
    then show ?thesis by simp
  next
    case False
    then show ?thesis using Cons.IH [of "acc @ [br]"] by simp
  qed
qed

lemma forkNewAncestors_spec: "forkNewAncestors forkB f = forkChainSpec forkB f"
  by (simp add: forkNewAncestors_def forkChainSpec_def forkAncestorsLoop_spec Let_def)

lemma forkAncestorsLoop_last:
  "brs \<noteq> [] \<Longrightarrow> f \<le> hbr_EndNodeID (last brs) \<Longrightarrow>
   forkAncestorsLoop f brs acc \<noteq> [] \<and> hbr_EndNodeID (last (forkAncestorsLoop f brs acc)) = f"
proof (induction brs arbitrary: acc)
  case Nil
  then show ?case by simp
next
  case (Cons br brs)
  show ?case
  proof (cases "f \<le> hbr_EndNodeID br")
    case True
    then show ?thesis by simp
  next
    case False
    with Cons.prems have "brs \<noteq> []" by (cases brs) auto
    with Cons.prems have "f \<le> hbr_EndNodeID (last brs)" by simp
    from Cons.IH [OF \<open>brs \<noteq> []\<close> this] False show ?thesis by simp
  qed
qed

lemma forkNewAncestors_begin:
  assumes "1 \<le> f"
  shows "(forkNewAncestors forkB f \<noteq> [] \<and> hbr_EndNodeID (last (forkNewAncestors forkB f)) = f) \<or>
         (forkNewAncestors forkB f = [] \<and> f = 1)"
proof (cases "f \<le> GetBeginNodeID forkB")
  case False
  then show ?thesis by (simp add: forkNewAncestors_def Let_def)
next
  case True
  show ?thesis
  proof (cases "hb_Ancestors forkB = []")
    case True
    with \<open>f \<le> GetBeginNodeID forkB\<close> assms show ?thesis
      by (simp add: forkNewAncestors_def GetBeginNodeID_def Let_def)
  next
    case False
    with \<open>f \<le> GetBeginNodeID forkB\<close> have "f \<le> hbr_EndNodeID (last (hb_Ancestors forkB))"
      by (simp add: GetBeginNodeID_def)
    from forkAncestorsLoop_last [OF False this] \<open>f \<le> GetBeginNodeID forkB\<close>
    show ?thesis by (simp add: forkNewAncestors_def Let_def)
  qed
qed

lemma AppendHistoryNodes_invalid_iff:
  "fst (AppendHistoryNodes now request db) = Some InvalidPersistenceRequestError \<longleftrightarrow>
   ap_NodeID request < GetBeginNodeID (ap_BranchInfo request)"
  by (auto simp: AppendHistoryNodes_def Let_def serializeAncestors_def txExecute_def
      appendNewBranchTx_def InsertIntoHistoryNode_def InsertIntoHistoryTree_def
      split: sum.splits error.splits prod.splits option.splits if_splits)

lemma deserializeAncestors_decodable:
  "decodable row \<Longrightarrow> deserializeAncestors (tr_Ancestors row) = Inr (chainOfRow row)"
  by (cases "tr_Ancestors row") (simp_all add: decodable_def chainOfRow_def)

lemma deserializeAncestors_not_decodable:
  "\<not> decodable row \<Longrightarrow> deserializeAncestors (tr_Ancestors row) = Inl JSONError"
  by (simp add: decodable_def)

lemma getHistoryTreeLoop_decodable:
  "list_all decodable rows \<Longrightarrow>
   getHistoryTreeLoop treeID rows branches forkingBranches =
     Inr \<lparr>gt_Branches = branches @ map (branchOfRow treeID) rows,
          gt_ForkingInProgressBranches =
            forkingBranches @ map forkingOfRow (filter tr_InProgress rows)\<rparr>"
proof (induction rows arbitrary: branches forkingBranches)
  case Nil
  show ?case by simp
next
  case (Cons row rows)
  then have d: "decodable row" and ds: "list_all decodable rows" by simp_all
  show ?case
    by (simp add: deserializeAncestors_decodable [OF d] Cons.IH [OF ds] Let_def
        branchOfRow_def forkingOfRow_def)
qed

lemma getHistoryTreeLoop_not_decodable:
  "\<not> list_all decodable rows \<Longrightarrow>
   getHistoryTreeLoop treeID rows branches forkingBranches = Inl JSONError"
proof (induction rows arbitrary: branches forkingBranches)
  case Nil
  then show ?case by simp
next
  case (Cons row rows)
  show ?case
  proof (cases "decodable row")
    case False
    then show ?thesis by (simp add: deserializeAncestors_not_decodable Let_def)
  next
    case True
    with Cons.prems have "\<not> list_all decodable rows" by simp
    from Cons.IH [OF this] True show ?thesis
      by (simp add: deserializeAncestors_decodable Let_def)
  qed
qed

lemma GetHistoryTree_rows:
  "GetHistoryTree treeID db =
     (if list_all decodable (treeRows treeID db) then
        Inr \<lparr>gt_Branches = map (branchOfRow treeID) (treeRows treeID db),
             gt_ForkingInProgressBranches =
               map forkingOfRow (filter tr_InProgress (treeRows treeID db))\<rparr>
      else Inl JSONError)"
proof (cases "treeRows treeID db = []")
  case True
  then show ?thesis
    by (simp add: GetHistoryTree_def getHistoryTreeSelected_def SelectFromHistoryTree_def
        treeRows_def)
next
  case False
  then have "GetHistoryTree treeID db = getHistoryTreeLoop treeID (treeRows treeID db) [] []"
    by (simp add: GetHistoryTree_def getHistoryTreeSelected_def SelectFromHistoryTree_def
        treeRows_def)
  then show ?thesis
    by (simp add: getHistoryTreeLoop_decodable getHistoryTreeLoop_not_decodable)
qed

lemma readRows_error: "readRows rows history n t blob = Inl err \<Longrightarrow> err = InternalServiceError"
  by (induction rows arbitrary: history n t blob) (auto simp: Let_def split: if_splits)

lemma readRows_corrupted:
  "isl (readRows rows history n t blob) \<longleftrightarrow> corruptedAfter (Some (n, t)) rows"
  by (induction rows arbitrary: history n t blob) (auto simp: Let_def)

lemma corruptedAfter_sentinel:
  "\<forall>row\<in>set rows. - 1 < nr_NodeID row \<Longrightarrow>
   corruptedAfter (Some (- 1, t)) rows = corruptedAfter None rows"
  by (cases rows) auto

lemma latestTxn_Cons:
  "latestTxn (row # rows) x \<longleftrightarrow>
     (nr_NodeID row \<noteq> nr_NodeID x \<or> nr_TxnID row \<le> nr_TxnID x) \<and> latestTxn rows x"
  by (simp add: latestTxn_def)

lemma readRows_latest:
  assumes "sorted_wrt rowBefore rows"
      and "\<forall>row\<in>set rows. n < nr_NodeID row \<or> (n = nr_NodeID row \<and> nr_TxnID row < t)"
  shows "\<exists>lastNodeID. readRows rows history n t blob =
           Inr (history @ map blobOfRow
                  (filter (\<lambda>row. nr_NodeID row \<noteq> n \<and> latestTxn rows row) rows), lastNodeID)"
  using assms
proof (induction rows arbitrary: history n t blob)
  case Nil
  show ?case by simp
next
  case (Cons row rows)
  from Cons.prems(1) have sorted: "sorted_wrt rowBefore rows"
    and before: "\<forall>x\<in>set rows. rowBefore row x" by simp_all
  let ?blob = "blob\<lparr>blob_Data := nr_Data row, blob_Encoding := nr_DataEncoding row\<rparr>"
  have blob: "?blob = blobOfRow row" by (simp add: blobOfRow_def)
  show ?case
  proof (cases "nr_NodeID row = n")
    case True
    with Cons.prems(2) have txn: "nr_TxnID row < t" by auto
    from Cons.prems(2) have rest: "\<forall>x\<in>set rows. n < nr_NodeID x \<or> (n = nr_NodeID x \<and> nr_TxnID x < t)"
      by simp
    have step: "readRows (row # rows) history n t blob = readRows rows history n t ?blob"
      using True txn by (simp add: Let_def)
    have "filter (\<lambda>x. nr_NodeID x \<noteq> n \<and> latestTxn (row # rows) x) rows =
          filter (\<lambda>x. nr_NodeID x \<noteq> n \<and> latestTxn rows x) rows"
    proof (rule filter_cong [OF refl])
      fix x assume "x \<in> set rows"
      show "(nr_NodeID x \<noteq> n \<and> latestTxn (row # rows) x) =
            (nr_NodeID x \<noteq> n \<and> latestTxn rows x)"
        using True by (auto simp: latestTxn_Cons)
    qed
    then have same: "filter (\<lambda>x. nr_NodeID x \<noteq> n \<and> latestTxn (row # rows) x) (row # rows) =
                filter (\<lambda>x. nr_NodeID x \<noteq> n \<and> latestTxn rows x) rows"
      using True by simp
    from Cons.IH [OF sorted rest, of history ?blob] show ?thesis
      unfolding step same .
  next
    case False
    with Cons.prems(2) have less: "n < nr_NodeID row" by auto
    from before have rest:
      "\<forall>x\<in>set rows. nr_NodeID row < nr_NodeID x \<or>
                     (nr_NodeID row = nr_NodeID x \<and> nr_TxnID x < nr_TxnID row)"
      by (simp add: rowBefore_def)
    have step: "readRows (row # rows) history n t blob =
                readRows rows (history @ [blobOfRow row]) (nr_NodeID row) (nr_TxnID row) emptyBlob"
      using less by (simp add: Let_def blob)
    have "latestTxn rows row"
      unfolding latestTxn_def list_all_iff
    proof
      fix x assume "x \<in> set rows"
      with rest show "nr_NodeID x \<noteq> nr_NodeID row \<or> nr_TxnID x \<le> nr_TxnID row"
        by fastforce
    qed
    then have latest: "latestTxn (row # rows) row" by (simp add: latestTxn_Cons)
    have "filter (\<lambda>x. nr_NodeID x \<noteq> n \<and> latestTxn (row # rows) x) rows =
          filter (\<lambda>x. nr_NodeID x \<noteq> nr_NodeID row \<and> latestTxn rows x) rows"
    proof (rule filter_cong [OF refl])
      fix x assume "x \<in> set rows"
      with rest consider (later) "nr_NodeID row < nr_NodeID x"
        | (older) "nr_NodeID row = nr_NodeID x" "nr_TxnID x < nr_TxnID row"
        by blast
      then show "(nr_NodeID x \<noteq> n \<and> latestTxn (row # rows) x) =
                 (nr_NodeID x \<noteq> nr_NodeID row \<and> latestTxn rows x)"
      proof cases
        case later
        with less show ?thesis by (simp add: latestTxn_Cons)
      next
        case older
        with less show ?thesis by (simp add: latestTxn_Cons)
      qed
    qed
    then have same: "filter (\<lambda>x. nr_NodeID x \<noteq> n \<and> latestTxn (row # rows) x) (row # rows) =
                row # filter (\<lambda>x. nr_NodeID x \<noteq> nr_NodeID row \<and> latestTxn rows x) rows"
      using False latest by simp
    from Cons.IH [OF sorted rest, of "history @ [blobOfRow row]" emptyBlob] show ?thesis
      unfolding step same by simp
  qed
qed

lemma latest_covers:
  "nr_NodeID ` set (filter (latestTxn rows) rows) = nr_NodeID ` set rows"
proof
  show "nr_NodeID ` set (filter (latestTxn rows) rows) \<subseteq> nr_NodeID ` set rows" by auto
  show "nr_NodeID ` set rows \<subseteq> nr_NodeID ` set (filter (latestTxn rows) rows)"
  proof
    fix k assume "k \<in> nr_NodeID ` set rows"
    then obtain r where r: "r \<in> set rows" "nr_NodeID r = k" by auto
    let ?S = "{x \<in> set rows. nr_NodeID x = k}"
    have fin: "finite (nr_TxnID ` ?S)" by simp
    have ne: "nr_TxnID ` ?S \<noteq> {}" using r by auto
    from Max_in [OF fin ne] obtain m where m: "m \<in> ?S" "nr_TxnID m = Max (nr_TxnID ` ?S)"
      by auto
    have "latestTxn rows m"
      unfolding latestTxn_def list_all_iff
    proof
      fix x assume x: "x \<in> set rows"
      show "nr_NodeID x \<noteq> nr_NodeID m \<or> nr_TxnID x \<le> nr_TxnID m"
      proof (cases "nr_NodeID x = nr_NodeID m")
        case True
        with x m(1) have "nr_TxnID x \<in> nr_TxnID ` ?S" by auto
        from Max_ge [OF fin this] m(2) show ?thesis by simp
      next
        case False
        then show ?thesis by simp
      qed
    qed
    with m(1) show "k \<in> nr_NodeID ` set (filter (latestTxn rows) rows)" by auto
  qed
qed

lemma latest_distinct:
  assumes "sorted_wrt rowBefore rows"
  shows "distinct (map nr_NodeID (filter (latestTxn rows) rows))"
proof -
  have "sorted_wrt rowBefore (filter (latestTxn rows) rows)"
    using assms by (rule sorted_wrt_filter)
  then have "sorted_wrt (\<lambda>a b. nr_NodeID a < nr_NodeID b) (filter (latestTxn rows) rows)"
  proof (rule sorted_wrt_mono_rel [rotated])
    fix a b
    assume a: "a \<in> set (filter (latestTxn rows) rows)"
       and b: "b \<in> set (filter (latestTxn rows) rows)" and ab: "rowBefore a b"
    from a b have "nr_NodeID a \<noteq> nr_NodeID b \<or> nr_TxnID a \<le> nr_TxnID b"
      by (auto simp: latestTxn_def list_all_iff)
    with ab show "nr_NodeID a < nr_NodeID b" by (auto simp: rowBefore_def)
  qed
  then have "sorted_wrt (<) (map nr_NodeID (filter (latestTxn rows) rows))"
    by (simp add: sorted_wrt_map)
  then show ?thesis by (simp add: strict_sorted_iff)
qed

lemma ReadHistoryBranch_selected:
  "readFilter deser request = Inr nodeFilter \<Longrightarrow>
   ReadHistoryBranch deser ser sel request = readSelected ser request (sel nodeFilter)"
  by (simp add: ReadHistoryBranch_def)

lemma readRows_lastNodeID:
  "readRows rows history n t blob = Inr (history', lastNodeID) \<Longrightarrow>
   lastNodeID = (if rows = [] then n else nr_NodeID (last rows))"
  by (induction rows arbitrary: history n t blob) (auto simp: Let_def split: if_splits)

lemma readSelected_token:
  assumes "readSelected ser request selected = Inr resp"
  shows "(rs_NextPageToken resp \<noteq> None \<longleftrightarrow>
            rq_PageSize request \<le> int (length (selectedRows selected)) \<and>
            selected \<noteq> Inl ErrNoRows \<and> selected \<noteq> Inr []) \<and>
         (rs_NextPageToken resp = None \<or>
          rs_NextPageToken resp =
            Some (ser (if selectedRows selected = [] then - 1
                       else nr_NodeID (last (selectedRows selected)))))"
proof (cases "selected = Inl ErrNoRows \<or> selected = Inr []")
  case True
  with assms have "resp = emptyReadResponse" by (auto simp: readSelected_def)
  with True show ?thesis by (auto simp: emptyReadResponse_def)
next
  case False
  let ?rows = "selectedRows selected"
  from False assms obtain history lastNodeID where
    loop: "readRows ?rows [] (- 1) (- 1) emptyBlob = Inr (history, lastNodeID)" and
    resp: "resp = \<lparr>rs_History = history,
                   rs_NextPageToken = (if rq_PageSize request \<le> int (length ?rows)
                                       then Some (ser lastNodeID) else None)\<rparr>"
    by (auto simp: readSelected_def selectedRows_def Let_def
        split: sum.splits prod.splits if_splits)
  from readRows_lastNodeID [OF loop]
  have "lastNodeID = (if ?rows = [] then - 1 else nr_NodeID (last ?rows))" .
  with resp False show ?thesis by simp
qed

subsection \<open>Deleting a branch\<close>

text \<open>
  C1 (delete safety): after a successful \<^verbatim>\<open>DeleteHistoryBranch(B)\<close> every remaining
  branch reads the same blobs as before. The code does not keep this. It computes
  \<^verbatim>\<open>validBRsMaxEndNode\<close> from the ancestor chains alone, while the row of the branch
  to delete is still in the tree, and deletes the nodes of the first referenced
  ancestor from the largest referenced end node id on: this ancestor loses its own
  nodes from the fork point on, although it is still a branch of the tree. In the
  scenario S4 the tree has B1 (nodes 1 and 2) and B2 (forked from B1 at 2): B1 reads
  \<^verbatim>\<open>e1, e2b\<close>, \<^verbatim>\<open>Delete(B2)\<close> succeeds, and B1 then reads \<^verbatim>\<open>e1\<close> only.
\<close>

theorem DeleteHistoryBranch_removes_sibling_nodes:
  "ReadHistoryBranch marksDeserialize marksSerialize (SelectFromHistoryNode dbS3)
     (readRequest ''B1'' 1 10 10) =
     Inr \<lparr>rs_History = [\<lparr>blob_Data = ''e1'', blob_Encoding = ''json''\<rparr>,
                         \<lparr>blob_Data = ''e2b'', blob_Encoding = ''json''\<rparr>],
          rs_NextPageToken = None\<rparr> \<and>
   DeleteHistoryBranch branchB2 dbS3 = (None, dbS4) \<and>
   trees dbS4 = [treeRow ''B1'' False []] \<and>
   ReadHistoryBranch marksDeserialize marksSerialize (SelectFromHistoryNode dbS4)
     (readRequest ''B1'' 1 10 10) =
     Inr \<lparr>rs_History = [\<lparr>blob_Data = ''e1'', blob_Encoding = ''json''\<rparr>],
          rs_NextPageToken = None\<rparr>"
  by code_simp

text \<open>
  C7 (in-progress blocks delete): when the tree the delete observes has a branch that
  is in progress, the call returns \<^verbatim>\<open>ConditionFailed\<close> and the database is the one
  before the call: neither the branch row nor a node is deleted. The tree is observed
  when every stored chain of it decodes (otherwise \<^verbatim>\<open>GetHistoryTree\<close> fails first).
\<close>

theorem DeleteHistoryBranch_in_progress:
  assumes "list_ex tr_InProgress (treeRows (hb_TreeID branch) db)"
      and "list_all decodable (treeRows (hb_TreeID branch) db)"
  shows "DeleteHistoryBranch branch db = (Some ConditionFailedError, db)"
proof -
  from assms(1) have "filter tr_InProgress (treeRows (hb_TreeID branch) db) \<noteq> []"
    by (auto simp: list_ex_iff filter_empty_conv)
  with assms(2) show ?thesis
    by (simp add: DeleteHistoryBranch_def Let_def GetHistoryTree_rows)
qed

text \<open>The scenario S5: B3 is in progress, so \<^verbatim>\<open>Delete(B1)\<close> is refused.\<close>

theorem DeleteHistoryBranch_in_progress_witness:
  "list_ex tr_InProgress (treeRows (hb_TreeID branchB1) dbS5) \<and>
   list_all decodable (treeRows (hb_TreeID branchB1) dbS5) \<and>
   DeleteHistoryBranch branchB1 dbS5 = (Some ConditionFailedError, dbS5)"
proof -
  have h1: "list_ex tr_InProgress (treeRows (hb_TreeID branchB1) dbS5)" by code_simp
  have h2: "list_all decodable (treeRows (hb_TreeID branchB1) dbS5)" by code_simp
  from h1 h2 DeleteHistoryBranch_in_progress [OF h1 h2] show ?thesis by simp
qed

subsection \<open>Forking\<close>

text \<open>
  C2 (ancestor chain of a fork): the chain the code computes is the chain of section
  4.3.2, in both cases; \<^verbatim>\<open>ForkHistoryBranch\<close> returns it in the new branch info and
  stores it in the new row, in progress, unless the row exists already.
\<close>

theorem ForkHistoryBranch_ancestor_chain:
  "forkNewAncestors (fk_ForkBranchInfo request) (fk_ForkNodeID request) =
     forkChainSpec (fk_ForkBranchInfo request) (fk_ForkNodeID request) \<and>
   ForkHistoryBranch now request db =
     (if list_ex (treeRowOf (hb_TreeID (fk_ForkBranchInfo request)) (fk_NewBranchID request)) (trees db)
      then (Inl (MySQLError ErrDupEntry), db)
      else (Inr \<lparr>fk_NewBranchInfo =
                   \<lparr>hb_TreeID = hb_TreeID (fk_ForkBranchInfo request),
                    hb_BranchID = fk_NewBranchID request,
                    hb_Ancestors = forkChainSpec (fk_ForkBranchInfo request) (fk_ForkNodeID request)\<rparr>\<rparr>,
            db\<lparr>trees := trees db @
                 [\<lparr>tr_TreeID = hb_TreeID (fk_ForkBranchInfo request),
                   tr_BranchID = fk_NewBranchID request,
                   tr_InProgress = True, tr_CreatedTs = now,
                   tr_Ancestors = Encoded (forkChainSpec (fk_ForkBranchInfo request) (fk_ForkNodeID request)),
                   tr_Info = fk_Info request\<rparr>]\<rparr>))"
  by (simp add: ForkHistoryBranch_def forkNewAncestors_spec serializeAncestors_def
      InsertIntoHistoryTree_def Let_def sameTreeKey_treeRowOf)

text \<open>Case A at an inherited node: forking B2 at 1 keeps B1 up to 1.\<close>

theorem ForkHistoryBranch_ancestor_chain_witness:
  "ForkHistoryBranch 0 (forkRequest branchB2 1 ''B4'') dbS3 =
     (Inr \<lparr>fk_NewBranchInfo =
             \<lparr>hb_TreeID = ''T1'', hb_BranchID = ''B4'',
              hb_Ancestors = [\<lparr>hbr_BranchID = ''B1'', hbr_BeginNodeID = 1, hbr_EndNodeID = 1\<rparr>]\<rparr>\<rparr>,
      dbS3\<lparr>trees := trees dbS3 @
              [\<lparr>tr_TreeID = ''T1'', tr_BranchID = ''B4'', tr_InProgress = True, tr_CreatedTs = 0,
                tr_Ancestors = Encoded [\<lparr>hbr_BranchID = ''B1'', hbr_BeginNodeID = 1, hbr_EndNodeID = 1\<rparr>],
                tr_Info = []\<rparr>]\<rparr>)"
proof -
  have chain: "forkChainSpec branchB2 1 = [\<lparr>hbr_BranchID = ''B1'', hbr_BeginNodeID = 1, hbr_EndNodeID = 1\<rparr>]"
    by code_simp
  have free: "\<not> list_ex (treeRowOf ''T1'' ''B4'') (trees dbS3)"
    by code_simp
  have req: "fk_ForkBranchInfo (forkRequest branchB2 1 ''B4'') = branchB2"
    "fk_ForkNodeID (forkRequest branchB2 1 ''B4'') = 1"
    "fk_NewBranchID (forkRequest branchB2 1 ''B4'') = ''B4''"
    "fk_Info (forkRequest branchB2 1 ''B4'') = []"
    "hb_TreeID branchB2 = ''T1''"
    by (simp_all add: forkRequest_def branchB2_def)
  from ForkHistoryBranch_ancestor_chain [of "forkRequest branchB2 1 ''B4''" 0 dbS3]
  show ?thesis
    by (simp only: req chain free if_False)
qed

text \<open>
  C10 (begin node id of the new branch): for a fork node id of at least 1, the begin
  node id of the branch a fork returns is the fork node id: its chain is non-empty and
  ends at the fork node id, or is empty and the fork node id is 1. So an append to
  the new branch is rejected as invalid exactly for the node ids below the fork node
  id. The order of the source chain is not needed for this.
\<close>

theorem ForkHistoryBranch_begin_node:
  assumes "1 \<le> fk_ForkNodeID request"
      and "ForkHistoryBranch now request db = (Inr resp, db')"
  shows "GetBeginNodeID (fk_NewBranchInfo resp) = fk_ForkNodeID request \<and>
         ((hb_Ancestors (fk_NewBranchInfo resp) \<noteq> [] \<and>
           hbr_EndNodeID (last (hb_Ancestors (fk_NewBranchInfo resp))) = fk_ForkNodeID request) \<or>
          (hb_Ancestors (fk_NewBranchInfo resp) = [] \<and> fk_ForkNodeID request = 1)) \<and>
         (\<forall>now' isNewBranch info nodeID events txnID db''.
            fst (AppendHistoryNodes now'
                   \<lparr>ap_IsNewBranch = isNewBranch, ap_Info = info,
                    ap_BranchInfo = fk_NewBranchInfo resp, ap_NodeID = nodeID,
                    ap_Events = events, ap_TransactionID = txnID\<rparr> db'') =
              Some InvalidPersistenceRequestError
            \<longleftrightarrow> nodeID < fk_ForkNodeID request)"
proof -
  from assms(2) have anc: "hb_Ancestors (fk_NewBranchInfo resp) =
      forkNewAncestors (fk_ForkBranchInfo request) (fk_ForkNodeID request)"
    by (auto simp: ForkHistoryBranch_def Let_def serializeAncestors_def
        split: sum.splits prod.splits if_splits)
  from forkNewAncestors_begin [OF assms(1), of "fk_ForkBranchInfo request"]
  have d: "(hb_Ancestors (fk_NewBranchInfo resp) \<noteq> [] \<and>
           hbr_EndNodeID (last (hb_Ancestors (fk_NewBranchInfo resp))) = fk_ForkNodeID request) \<or>
          (hb_Ancestors (fk_NewBranchInfo resp) = [] \<and> fk_ForkNodeID request = 1)"
    by (simp add: anc)
  then have b: "GetBeginNodeID (fk_NewBranchInfo resp) = fk_ForkNodeID request"
    by (auto simp: GetBeginNodeID_def)
  show ?thesis using d b by (simp add: AppendHistoryNodes_invalid_iff)
qed

text \<open>The fork of S5: B3 begins at 2.\<close>

theorem ForkHistoryBranch_begin_node_witness:
  "1 \<le> fk_ForkNodeID (forkRequest branchB1 2 ''B3'') \<and>
   ForkHistoryBranch 0 (forkRequest branchB1 2 ''B3'') dbS2 =
     (Inr \<lparr>fk_NewBranchInfo = branchB3\<rparr>, dbS5) \<and>
   GetBeginNodeID branchB3 = 2"
proof -
  have h1: "1 \<le> fk_ForkNodeID (forkRequest branchB1 2 ''B3'')"
    by (simp add: forkRequest_def)
  have h2: "ForkHistoryBranch 0 (forkRequest branchB1 2 ''B3'') dbS2 =
     (Inr \<lparr>fk_NewBranchInfo = branchB3\<rparr>, dbS5)"
    by code_simp
  from ForkHistoryBranch_begin_node [OF h1 h2]
  have "GetBeginNodeID branchB3 = 2" by (simp add: forkRequest_def)
  with h1 h2 show ?thesis by simp
qed

subsection \<open>Appending\<close>

text \<open>
  C4 (duplicate key on append): a node insert that fails with the duplicate-key signal
  makes the call return \<^verbatim>\<open>ConditionFailed\<close>, with the new-branch flag or without. The
  code translates the signal only on the path without the flag (lines 142 to 148).
  With the flag, the work of the transaction returns the error of the insert as it is
  (lines 116 to 119), and so does the call. Replaying the first append of S1: with the
  flag the result is the raw duplicate-entry error, without it \<^verbatim>\<open>ConditionFailed\<close>.
\<close>

theorem AppendHistoryNodes_new_branch_duplicate:
  "list_ex (sameNodeKey (appendNodeRow (appendRequest True branchB1 1 100 ''e1''))) (nodes dbS1) \<and>
   appendNewBranchTx (appendNodeRow (appendRequest True branchB1 1 100 ''e1''))
      (treeRow ''B1'' False []) dbS1 = (Some (MySQLError ErrDupEntry), dbS1) \<and>
   AppendHistoryNodes 0 (appendRequest True branchB1 1 100 ''e1'') dbS1 =
     (Some (MySQLError ErrDupEntry), dbS1) \<and>
   AppendHistoryNodes 0 (appendRequest False branchB1 1 100 ''e1'') dbS1 =
     (Some ConditionFailedError, dbS1)"
  by code_simp

text \<open>
  C6 (precondition of an append): a node id below the begin node id of the branch info
  returns \<^verbatim>\<open>InvalidRequest\<close> and leaves the database as it is; from the begin node id
  on the call is not rejected as invalid and goes on to the insert: when the key of
  the node is free (and, with the new-branch flag, the key of the branch row), the
  call succeeds and the node row is appended to the table.
\<close>

theorem AppendHistoryNodes_precondition:
  "(ap_NodeID request < GetBeginNodeID (ap_BranchInfo request) \<longrightarrow>
      AppendHistoryNodes now request db = (Some InvalidPersistenceRequestError, db)) \<and>
   (GetBeginNodeID (ap_BranchInfo request) \<le> ap_NodeID request \<longrightarrow>
      fst (AppendHistoryNodes now request db) \<noteq> Some InvalidPersistenceRequestError \<and>
      (\<not> list_ex (sameNodeKey (appendNodeRow request)) (nodes db) \<and>
       (ap_IsNewBranch request \<longrightarrow>
          \<not> list_ex (treeRowOf (hb_TreeID (ap_BranchInfo request))
                        (hb_BranchID (ap_BranchInfo request))) (trees db)) \<longrightarrow>
       fst (AppendHistoryNodes now request db) = None \<and>
       nodes (snd (AppendHistoryNodes now request db)) = nodes db @ [appendNodeRow request]))"
proof (intro conjI impI)
  assume "ap_NodeID request < GetBeginNodeID (ap_BranchInfo request)"
  then show "AppendHistoryNodes now request db = (Some InvalidPersistenceRequestError, db)"
    by (simp add: AppendHistoryNodes_def Let_def)
next
  assume "GetBeginNodeID (ap_BranchInfo request) \<le> ap_NodeID request"
  then show "fst (AppendHistoryNodes now request db) \<noteq> Some InvalidPersistenceRequestError"
    by (simp add: AppendHistoryNodes_invalid_iff)
next
  assume b: "GetBeginNodeID (ap_BranchInfo request) \<le> ap_NodeID request"
    and f: "\<not> list_ex (sameNodeKey (appendNodeRow request)) (nodes db) \<and>
       (ap_IsNewBranch request \<longrightarrow>
          \<not> list_ex (treeRowOf (hb_TreeID (ap_BranchInfo request))
                        (hb_BranchID (ap_BranchInfo request))) (trees db))"
  then show "fst (AppendHistoryNodes now request db) = None"
    by (simp add: AppendHistoryNodes_def Let_def serializeAncestors_def txExecute_def
        appendNewBranchTx_def InsertIntoHistoryNode_def InsertIntoHistoryTree_def
        sameTreeKey_treeRowOf)
  from b f show "nodes (snd (AppendHistoryNodes now request db)) = nodes db @ [appendNodeRow request]"
    by (simp add: AppendHistoryNodes_def Let_def serializeAncestors_def txExecute_def
        appendNewBranchTx_def InsertIntoHistoryNode_def InsertIntoHistoryTree_def
        sameTreeKey_treeRowOf)
qed

text \<open>The scenario S6 on B2, which begins at 2: node id 1 is refused, node id 2 is stored.\<close>

theorem AppendHistoryNodes_precondition_witness:
  "ap_NodeID (appendRequest False branchB2 1 400 ''e1-alt'') <
     GetBeginNodeID (ap_BranchInfo (appendRequest False branchB2 1 400 ''e1-alt'')) \<and>
   AppendHistoryNodes 0 (appendRequest False branchB2 1 400 ''e1-alt'') dbS3 =
     (Some InvalidPersistenceRequestError, dbS3) \<and>
   GetBeginNodeID (ap_BranchInfo (appendRequest False branchB2 2 400 ''e2-new'')) \<le>
     ap_NodeID (appendRequest False branchB2 2 400 ''e2-new'') \<and>
   fst (AppendHistoryNodes 0 (appendRequest False branchB2 2 400 ''e2-new'') dbS3) = None \<and>
   nodes (snd (AppendHistoryNodes 0 (appendRequest False branchB2 2 400 ''e2-new'') dbS3)) =
     nodes dbS3 @ [nodeRow ''B2'' 2 400 ''e2-new'']"
proof -
  have below: "ap_NodeID (appendRequest False branchB2 1 400 ''e1-alt'') <
     GetBeginNodeID (ap_BranchInfo (appendRequest False branchB2 1 400 ''e1-alt''))"
    by code_simp
  have above: "GetBeginNodeID (ap_BranchInfo (appendRequest False branchB2 2 400 ''e2-new'')) \<le>
     ap_NodeID (appendRequest False branchB2 2 400 ''e2-new'')"
    by code_simp
  have free: "\<not> list_ex (sameNodeKey (appendNodeRow (appendRequest False branchB2 2 400 ''e2-new'')))
                  (nodes dbS3)"
    by code_simp
  have old: "\<not> ap_IsNewBranch (appendRequest False branchB2 2 400 ''e2-new'')"
    by (simp add: appendRequest_def)
  have row: "appendNodeRow (appendRequest False branchB2 2 400 ''e2-new'') =
             nodeRow ''B2'' 2 400 ''e2-new''"
    by code_simp
  from AppendHistoryNodes_precondition [of "appendRequest False branchB2 1 400 ''e1-alt''" 0 dbS3]
    below
  have first: "AppendHistoryNodes 0 (appendRequest False branchB2 1 400 ''e1-alt'') dbS3 =
     (Some InvalidPersistenceRequestError, dbS3)"
    by blast
  from AppendHistoryNodes_precondition [of "appendRequest False branchB2 2 400 ''e2-new''" 0 dbS3]
    above free old
  have "fst (AppendHistoryNodes 0 (appendRequest False branchB2 2 400 ''e2-new'') dbS3) = None \<and>
   nodes (snd (AppendHistoryNodes 0 (appendRequest False branchB2 2 400 ''e2-new'') dbS3)) =
     nodes dbS3 @ [appendNodeRow (appendRequest False branchB2 2 400 ''e2-new'')]"
    by blast
  with below above first show ?thesis by (simp only: row) 
qed

subsection \<open>Enumerating a tree\<close>

text \<open>
  C5 (the two collections of \<^verbatim>\<open>GetHistoryTree\<close>), as the code has it: when every chain
  of the tree decodes, \<^verbatim>\<open>Branches\<close> has one entry for every branch row of the tree,
  committed or in progress, in the order of the rows and with the decoded chain, and
  \<^verbatim>\<open>ForkingInProgressBranches\<close> has exactly the rows in progress, with branch id, fork
  time and info. A chain that does not decode makes the call fail.
\<close>

theorem GetHistoryTree_split:
  "GetHistoryTree treeID db =
     (if list_all decodable (treeRows treeID db) then
        Inr \<lparr>gt_Branches = map (branchOfRow treeID) (treeRows treeID db),
             gt_ForkingInProgressBranches =
               map forkingOfRow (filter tr_InProgress (treeRows treeID db))\<rparr>
      else Inl JSONError)"
  by (rule GetHistoryTree_rows)

text \<open>The tree after S3: two committed branches, none in progress.\<close>

theorem GetHistoryTree_split_witness:
  "GetHistoryTree ''T1'' dbS3 =
     Inr \<lparr>gt_Branches = [branchB1, branchB2], gt_ForkingInProgressBranches = []\<rparr>"
proof -
  have h: "list_all decodable (treeRows ''T1'' dbS3)" by code_simp
  have b: "map (branchOfRow ''T1'') (treeRows ''T1'' dbS3) = [branchB1, branchB2]" by code_simp
  have f: "map forkingOfRow (filter tr_InProgress (treeRows ''T1'' dbS3)) = []" by code_simp
  from GetHistoryTree_split [of "''T1''" dbS3] show ?thesis
    by (simp only: h b f if_True)
qed

text \<open>
  The statement that no branch in progress is among \<^verbatim>\<open>Branches\<close> fails in S5: B3 is in
  progress and is in both collections.
\<close>

theorem GetHistoryTree_lists_in_progress_branch:
  "tr_InProgress (treeRow ''B3'' True (hb_Ancestors branchB3)) \<and>
   trees dbS5 = [treeRow ''B1'' False [], treeRow ''B3'' True (hb_Ancestors branchB3)] \<and>
   GetHistoryTree ''T1'' dbS5 =
     Inr \<lparr>gt_Branches = [branchB1, branchB3],
          gt_ForkingInProgressBranches =
            [\<lparr>fp_BranchID = ''B3'', fp_ForkTime = 0, fp_Info = []\<rparr>]\<rparr>"
  by code_simp

subsection \<open>Reading\<close>

text \<open>
  C3 (transaction dedup at read): the select returns rows sorted by
  \<^verbatim>\<open>(nodeID ASC, txnID DESC)\<close> with node ids above the initial \<^verbatim>\<open>lastNodeID\<close> of the
  loop (node ids are at least 1). Then the read returns, in the order of the rows, the
  blobs of exactly the rows that carry the largest transaction id of their node id:
  one blob for every node id of the rows, and none for a row with the same node id
  and a smaller transaction id. The page size is not negative. The parameters \<open>deser\<close>, \<open>ser\<close> and \<open>select\<close> are
  the token codec and the select of the node store.
\<close>

theorem ReadHistoryBranch_txn_dedup:
  assumes "readFilter deser request = Inr nodeFilter"
      and "select nodeFilter = Inr rows"
      and "sortedRows rows"
      and "\<forall>row\<in>set rows. - 1 < nr_NodeID row"
      and "0 \<le> rq_PageSize request"
  shows "(\<exists>token. ReadHistoryBranch deser ser
                     select request =
            Inr \<lparr>rs_History = map blobOfRow (filter (latestTxn rows) rows),
                 rs_NextPageToken = token\<rparr>) \<and>
         distinct (map nr_NodeID (filter (latestTxn rows) rows)) \<and>
         nr_NodeID ` set (filter (latestTxn rows) rows) = nr_NodeID ` set rows \<and>
         length (filter (latestTxn rows) rows) = card (nr_NodeID ` set rows)"
proof -
  have sorted: "sorted_wrt rowBefore rows" using assms(3) by (simp add: sortedRows_def)
  have d: "distinct (map nr_NodeID (filter (latestTxn rows) rows))"
    by (rule latest_distinct [OF sorted])
  have c: "nr_NodeID ` set (filter (latestTxn rows) rows) = nr_NodeID ` set rows"
    by (rule latest_covers)
  from distinct_card [OF d] c
  have l: "length (filter (latestTxn rows) rows) = card (nr_NodeID ` set rows)" by simp
  have first: "\<forall>row\<in>set rows. - 1 < nr_NodeID row \<or> (- 1 = nr_NodeID row \<and> nr_TxnID row < - 1)"
    using assms(4) by simp
  have same: "filter (\<lambda>row. nr_NodeID row \<noteq> - 1 \<and> latestTxn rows row) rows =
              filter (latestTxn rows) rows"
    using assms(4) by (intro filter_cong) auto
  from readRows_latest [OF sorted first, of "[]" emptyBlob] same
  obtain lastNodeID where loop:
    "readRows rows [] (- 1) (- 1) emptyBlob =
       Inr (map blobOfRow (filter (latestTxn rows) rows), lastNodeID)"
    by auto
  have "\<exists>token. readSelected ser request (Inr rows) =
          Inr \<lparr>rs_History = map blobOfRow (filter (latestTxn rows) rows),
               rs_NextPageToken = token\<rparr>"
  proof (cases "rows = []")
    case True
    then show ?thesis by (simp add: readSelected_def emptyReadResponse_def)
  next
    case False
    with assms(5) show ?thesis by (simp add: readSelected_def loop)
  qed
  then show ?thesis using d c l
    by (simp add: ReadHistoryBranch_selected [OF assms(1)] assms(2))
qed

text \<open>Reading B1 after S3: \<^verbatim>\<open>e2b\<close> (transaction 200) wins over \<^verbatim>\<open>e2\<close> (transaction 101).\<close>

theorem ReadHistoryBranch_txn_dedup_witness:
  "readFilter marksDeserialize (readRequest ''B1'' 1 10 10) =
     Inr \<lparr>nf_TreeID = ''T1'', nf_BranchID = ''B1'', nf_MinNodeID = 1, nf_MaxNodeID = 10,
          nf_PageSize = 10\<rparr> \<and>
   SelectFromHistoryNode dbS3
     \<lparr>nf_TreeID = ''T1'', nf_BranchID = ''B1'', nf_MinNodeID = 1, nf_MaxNodeID = 10,
      nf_PageSize = 10\<rparr> = Inr rowsB1 \<and>
   sortedRows rowsB1 \<and>
   list_all (\<lambda>row. - 1 < nr_NodeID row) rowsB1 \<and>
   (\<exists>token. ReadHistoryBranch marksDeserialize marksSerialize (SelectFromHistoryNode dbS3)
              (readRequest ''B1'' 1 10 10) =
      Inr \<lparr>rs_History = [\<lparr>blob_Data = ''e1'', blob_Encoding = ''json''\<rparr>,
                          \<lparr>blob_Data = ''e2b'', blob_Encoding = ''json''\<rparr>],
           rs_NextPageToken = token\<rparr>)"
proof -
  let ?filter = "\<lparr>nf_TreeID = ''T1'', nf_BranchID = ''B1'', nf_MinNodeID = 1, nf_MaxNodeID = 10,
      nf_PageSize = 10\<rparr>"
  have h1: "readFilter marksDeserialize (readRequest ''B1'' 1 10 10) = Inr ?filter"
    by code_simp
  have h2: "SelectFromHistoryNode dbS3 ?filter = Inr rowsB1" by code_simp
  have h3: "sortedRows rowsB1" by code_simp
  have h4': "list_all (\<lambda>row. - 1 < nr_NodeID row) rowsB1" by code_simp
  then have h4: "\<forall>row\<in>set rowsB1. - 1 < nr_NodeID row" by (simp add: list_all_iff)
  have h5: "0 \<le> rq_PageSize (readRequest ''B1'' 1 10 10)" by code_simp
  have blobs: "map blobOfRow (filter (latestTxn rowsB1) rowsB1) =
      [\<lparr>blob_Data = ''e1'', blob_Encoding = ''json''\<rparr>,
       \<lparr>blob_Data = ''e2b'', blob_Encoding = ''json''\<rparr>]"
    by code_simp
  from ReadHistoryBranch_txn_dedup
    [where select = "SelectFromHistoryNode dbS3" and ser = marksSerialize, OF h1 h2 h3 h4 h5]
  have "\<exists>token. ReadHistoryBranch marksDeserialize marksSerialize (SelectFromHistoryNode dbS3)
              (readRequest ''B1'' 1 10 10) =
      Inr \<lparr>rs_History = [\<lparr>blob_Data = ''e1'', blob_Encoding = ''json''\<rparr>,
                          \<lparr>blob_Data = ''e2b'', blob_Encoding = ''json''\<rparr>],
           rs_NextPageToken = token\<rparr>"
    by (simp only: blobs)
  with h1 h2 h3 h4' show ?thesis by blast
qed

text \<open>
  C9 (corrupted order): for rows the read runs over, with node ids above the initial
  \<^verbatim>\<open>lastNodeID\<close> and a page size that is not negative, the call fails with an internal error exactly when some row has a
  smaller node id than the row accepted last, or the same node id and a transaction id
  that is not smaller; otherwise it runs to the end of the rows and returns a response.
\<close>

theorem ReadHistoryBranch_corrupted:
  assumes "readFilter deser request = Inr nodeFilter"
      and "select nodeFilter = Inr rows"
      and "\<forall>row\<in>set rows. - 1 < nr_NodeID row"
      and "0 \<le> rq_PageSize request"
  shows "(ReadHistoryBranch deser ser select request
            = Inl InternalServiceError \<longleftrightarrow> corruptedAfter None rows) \<and>
         (\<not> corruptedAfter None rows \<longrightarrow>
            (\<exists>resp. ReadHistoryBranch deser ser
                       select request = Inr resp))"
proof -
  let ?loop = "readRows rows [] (- 1) (- 1) emptyBlob"
  have c: "isl ?loop \<longleftrightarrow> corruptedAfter None rows"
    by (simp add: readRows_corrupted corruptedAfter_sentinel [OF assms(3)])
  show ?thesis
  proof (cases "rows = []")
    case True
    then show ?thesis
      by (simp add: ReadHistoryBranch_selected [OF assms(1)] assms(2) readSelected_def)
  next
    case False
    show ?thesis
    proof (cases ?loop)
      case (Inl err)
      with readRows_error have "err = InternalServiceError" by blast
      with Inl c False assms(4) show ?thesis
        by (simp add: ReadHistoryBranch_selected [OF assms(1)] assms(2) readSelected_def)
    next
      case (Inr res)
      with c False assms(4) show ?thesis
        by (cases res)
          (simp add: ReadHistoryBranch_selected [OF assms(1)] assms(2) readSelected_def)
    qed
  qed
qed

text \<open>
  The rows of B1 with the transactions of node 2 in ascending order are corrupted and
  fail; in the order of the select they are read.
\<close>

theorem ReadHistoryBranch_corrupted_witness:
  "readFilter marksDeserialize (readRequest ''B1'' 1 10 10) =
     Inr \<lparr>nf_TreeID = ''T1'', nf_BranchID = ''B1'', nf_MinNodeID = 1, nf_MaxNodeID = 10,
          nf_PageSize = 10\<rparr> \<and>
   list_all (\<lambda>row. - 1 < nr_NodeID row) rowsB1Swapped \<and>
   corruptedAfter None rowsB1Swapped \<and>
   ReadHistoryBranch marksDeserialize marksSerialize (selectReturning rowsB1Swapped)
     (readRequest ''B1'' 1 10 10) = Inl InternalServiceError \<and>
   list_all (\<lambda>row. - 1 < nr_NodeID row) rowsB1 \<and>
   \<not> corruptedAfter None rowsB1 \<and>
   (\<exists>resp. ReadHistoryBranch marksDeserialize marksSerialize (selectReturning rowsB1)
             (readRequest ''B1'' 1 10 10) = Inr resp)"
proof -
  let ?filter = "\<lparr>nf_TreeID = ''T1'', nf_BranchID = ''B1'', nf_MinNodeID = 1, nf_MaxNodeID = 10,
      nf_PageSize = 10\<rparr>"
  have h1: "readFilter marksDeserialize (readRequest ''B1'' 1 10 10) = Inr ?filter"
    by code_simp
  have bad: "selectReturning rowsB1Swapped ?filter = Inr rowsB1Swapped"
    and good: "selectReturning rowsB1 ?filter = Inr rowsB1"
    by (simp_all add: selectReturning_def)
  have pos': "list_all (\<lambda>row. - 1 < nr_NodeID row) rowsB1Swapped"
    "list_all (\<lambda>row. - 1 < nr_NodeID row) rowsB1"
    by code_simp+
  then have pos: "\<forall>row\<in>set rowsB1Swapped. - 1 < nr_NodeID row"
    "\<forall>row\<in>set rowsB1. - 1 < nr_NodeID row"
    by (simp_all add: list_all_iff)
  have size: "0 \<le> rq_PageSize (readRequest ''B1'' 1 10 10)" by code_simp
  have c: "corruptedAfter None rowsB1Swapped" by code_simp
  have n: "\<not> corruptedAfter None rowsB1" by code_simp
  from ReadHistoryBranch_corrupted
    [where select = "selectReturning rowsB1Swapped" and ser = marksSerialize, OF h1 bad pos(1) size] c
  have r1: "ReadHistoryBranch marksDeserialize marksSerialize (selectReturning rowsB1Swapped)
     (readRequest ''B1'' 1 10 10) = Inl InternalServiceError"
    by blast
  from ReadHistoryBranch_corrupted
    [where select = "selectReturning rowsB1" and ser = marksSerialize, OF h1 good pos(2) size] n
  have r2: "\<exists>resp. ReadHistoryBranch marksDeserialize marksSerialize (selectReturning rowsB1)
             (readRequest ''B1'' 1 10 10) = Inr resp"
    by blast
  from h1 pos' c n r1 r2 show ?thesis by blast
qed

text \<open>
  C8 (page tokens), as the code has it. A non-empty token that decodes to
  \<^verbatim>\<open>lastNodeID\<close> makes the minimal node id of the filter \<^verbatim>\<open>lastNodeID + 1\<close> in \<^verbatim>\<open>int64\<close>
  arithmetic, whatever the request's own minimal node id is. A response carries a
  token exactly when the select returned at least \<^verbatim>\<open>pageSize\<close> rows and the call did
  not return early with the empty response (the select reported no rows: by
  \<^verbatim>\<open>sql.ErrNoRows\<close>, or by an empty result without error); the token encodes the final
  \<^verbatim>\<open>lastNodeID\<close>, the node id of the last row (a row that is skipped has the node id of
  the row accepted last).
\<close>

theorem ReadHistoryBranch_pagination:
  "(rq_NextPageToken request \<noteq> [] \<and> deser (rq_NextPageToken request) = Inr lastNodeID \<longrightarrow>
      readFilter deser request =
        Inr \<lparr>nf_TreeID = rq_TreeID request, nf_BranchID = rq_BranchID request,
             nf_MinNodeID = wrap64 (lastNodeID + 1), nf_MaxNodeID = rq_MaxNodeID request,
             nf_PageSize = rq_PageSize request\<rparr> \<and>
      (- (2 ^ 63) \<le> lastNodeID \<and> lastNodeID < 2 ^ 63 - 1 \<longrightarrow>
         wrap64 (lastNodeID + 1) = lastNodeID + 1)) \<and>
   (readFilter deser request = Inr nodeFilter \<and>
    ReadHistoryBranch deser ser select request = Inr resp \<longrightarrow>
      (rs_NextPageToken resp \<noteq> None \<longleftrightarrow>
         rq_PageSize request \<le> int (length (selectedRows (select nodeFilter))) \<and>
         select nodeFilter \<noteq> Inl ErrNoRows \<and> select nodeFilter \<noteq> Inr []) \<and>
      (rs_NextPageToken resp = None \<or>
       rs_NextPageToken resp =
         Some (ser (if selectedRows (select nodeFilter) = [] then - 1
                    else nr_NodeID (last (selectedRows (select nodeFilter)))))))"
proof (intro conjI impI)
  assume a: "rq_NextPageToken request \<noteq> [] \<and> deser (rq_NextPageToken request) = Inr lastNodeID"
  then show "readFilter deser request =
        Inr \<lparr>nf_TreeID = rq_TreeID request, nf_BranchID = rq_BranchID request,
             nf_MinNodeID = wrap64 (lastNodeID + 1), nf_MaxNodeID = rq_MaxNodeID request,
             nf_PageSize = rq_PageSize request\<rparr>"
    by (simp add: readFilter_def)
  assume "- (2 ^ 63) \<le> lastNodeID \<and> lastNodeID < 2 ^ 63 - 1"
  then show "wrap64 (lastNodeID + 1) = lastNodeID + 1"
    by (intro wrap64_in_range) simp_all
next
  assume b: "readFilter deser request = Inr nodeFilter \<and>
    ReadHistoryBranch deser ser select request = Inr resp"
  then have r: "readSelected ser request (select nodeFilter) = Inr resp"
    by (auto simp: ReadHistoryBranch_def)
  from readSelected_token [OF r]
  show "rs_NextPageToken resp \<noteq> None \<longleftrightarrow>
         rq_PageSize request \<le> int (length (selectedRows (select nodeFilter))) \<and>
         select nodeFilter \<noteq> Inl ErrNoRows \<and> select nodeFilter \<noteq> Inr []"
    by (rule conjunct1)
  from readSelected_token [OF r]
  show "rs_NextPageToken resp = None \<or>
       rs_NextPageToken resp =
         Some (ser (if selectedRows (select nodeFilter) = [] then - 1
                    else nr_NodeID (last (selectedRows (select nodeFilter)))))"
    by (rule conjunct2)
qed

text \<open>The second page of B1 after S3, of size 1: it starts at node 2 and carries a token.\<close>

theorem ReadHistoryBranch_pagination_witness:
  "rq_NextPageToken pagedRequest \<noteq> [] \<and>
   marksDeserialize (rq_NextPageToken pagedRequest) = Inr 1 \<and>
   readFilter marksDeserialize pagedRequest =
     Inr \<lparr>nf_TreeID = ''T1'', nf_BranchID = ''B1'', nf_MinNodeID = 2, nf_MaxNodeID = 10,
          nf_PageSize = 1\<rparr> \<and>
   ReadHistoryBranch marksDeserialize marksSerialize (SelectFromHistoryNode dbS3) pagedRequest =
     Inr \<lparr>rs_History = [\<lparr>blob_Data = ''e2b'', blob_Encoding = ''json''\<rparr>],
          rs_NextPageToken = Some ''##''\<rparr> \<and>
   rq_PageSize pagedRequest \<le>
     int (length (selectedRows (SelectFromHistoryNode dbS3
       \<lparr>nf_TreeID = ''T1'', nf_BranchID = ''B1'', nf_MinNodeID = 2, nf_MaxNodeID = 10,
        nf_PageSize = 1\<rparr>)))"
proof -
  let ?filter = "\<lparr>nf_TreeID = ''T1'', nf_BranchID = ''B1'', nf_MinNodeID = 2, nf_MaxNodeID = 10,
        nf_PageSize = 1\<rparr>"
  let ?resp = "\<lparr>rs_History = [\<lparr>blob_Data = ''e2b'', blob_Encoding = ''json''\<rparr>],
          rs_NextPageToken = Some ''##''\<rparr>"
  note pagination = ReadHistoryBranch_pagination
    [where request = pagedRequest and deser = marksDeserialize and ser = marksSerialize
       and select = "SelectFromHistoryNode dbS3" and lastNodeID = 1
       and nodeFilter = ?filter and resp = ?resp]
  have token: "rq_NextPageToken pagedRequest \<noteq> [] \<and>
    marksDeserialize (rq_NextPageToken pagedRequest) = Inr 1"
    by code_simp
  have "readFilter marksDeserialize pagedRequest =
     Inr \<lparr>nf_TreeID = rq_TreeID pagedRequest, nf_BranchID = rq_BranchID pagedRequest,
          nf_MinNodeID = wrap64 (1 + 1), nf_MaxNodeID = rq_MaxNodeID pagedRequest,
          nf_PageSize = rq_PageSize pagedRequest\<rparr> \<and> wrap64 (1 + 1) = 1 + 1"
    using pagination token by simp
  then have filter: "readFilter marksDeserialize pagedRequest = Inr ?filter"
    by (simp add: pagedRequest_def readRequest_def)
  have read: "ReadHistoryBranch marksDeserialize marksSerialize (SelectFromHistoryNode dbS3)
     pagedRequest = Inr ?resp"
    by code_simp
  have "rs_NextPageToken ?resp \<noteq> None" by simp
  with pagination filter read
  have "rq_PageSize pagedRequest \<le> int (length (selectedRows (SelectFromHistoryNode dbS3 ?filter)))"
    by blast
  with token filter read show ?thesis by blast
qed

text \<open>
  The statement with the number of rows alone fails for a page size of 0: the select
  returns no row, which is at least the page size, and the response is the empty one,
  without a token.
\<close>

theorem ReadHistoryBranch_empty_page_no_token:
  "readFilter marksDeserialize (readRequest ''B1'' 1 10 0) =
     Inr \<lparr>nf_TreeID = ''T1'', nf_BranchID = ''B1'', nf_MinNodeID = 1, nf_MaxNodeID = 10,
          nf_PageSize = 0\<rparr> \<and>
   SelectFromHistoryNode dbS1
     \<lparr>nf_TreeID = ''T1'', nf_BranchID = ''B1'', nf_MinNodeID = 1, nf_MaxNodeID = 10,
      nf_PageSize = 0\<rparr> = Inr [] \<and>
   rq_PageSize (readRequest ''B1'' 1 10 0) \<le> int (length ([] :: HistoryNodeRow list)) \<and>
   ReadHistoryBranch marksDeserialize marksSerialize (SelectFromHistoryNode dbS1)
     (readRequest ''B1'' 1 10 0) = Inr \<lparr>rs_History = [], rs_NextPageToken = None\<rparr>"
  by code_simp

end
